theory Spec2Isabelle
  imports Complex_Main
begin

section \<open>A shell-script test harness (\<^verbatim>\<open>Tester.py\<close>)\<close>

text \<open>
  The harness loads test-case descriptors from \<^verbatim>\<open>Testcase.json\<close>, runs each script under
  \<^verbatim>\<open>bash\<close> with a timeout, validates the result and writes log files. The embedding
  below follows the source function by function. What the source obtains from outside
  (the clock, the child process, \<^verbatim>\<open>chmod\<close>, the JSON parser) is a field of an environment
  record; what it mutates (the two module globals, the file system, the console) is a
  record that every operation takes and returns.

  Modelling conventions:
  \<^item> text is ASCII: a \<^typ>\<open>char\<close> is one character of a Python \<^verbatim>\<open>str\<close>, and a file
    holds the text that reading it in text mode gives;
  \<^item> descriptor fields carry values of the types the configuration format gives them
    (strings, a boolean, a whole number of seconds); an absent key and a JSON
    \<^verbatim>\<open>null\<close> are both \<^const>\<open>None\<close>;
  \<^item> a measured duration is a rational number (every finite float is one);
  \<^item> paths are pathlib's pure POSIX paths; the file store is keyed by the path made
    absolute against the working directory, and two different keys are two different
    files (no symbolic links, no \<^verbatim>\<open>..\<close> resolution);
  \<^item> writing a log file and creating a log directory succeed (no permission or
    disk errors); scripts are observed only through exit code and output streams;
  \<^item> a failing \<^verbatim>\<open>assert c, m\<close> raises \<^verbatim>\<open>AssertionError(m)\<close>, whose \<^verbatim>\<open>str\<close> is \<open>m\<close>, as
    in plain Python.
\<close>

subsection \<open>Python string operations\<close>

definition NL :: char where
  "NL = CHR 0x0A"

definition QUOTE :: char where
  "QUOTE = CHR 0x27"

definition DQUOTE :: char where
  "DQUOTE = CHR 0x22"

text \<open>\<^verbatim>\<open>c.isalnum()\<close> and \<^verbatim>\<open>c.isspace()\<close> on ASCII characters.\<close>

definition isalnum :: "char \<Rightarrow> bool" where
  "isalnum c = (let n = of_char c :: nat in
     (48 \<le> n \<and> n \<le> 57) \<or> (65 \<le> n \<and> n \<le> 90) \<or> (97 \<le> n \<and> n \<le> 122))"

definition isspace :: "char \<Rightarrow> bool" where
  "isspace c = (let n = of_char c :: nat in (9 \<le> n \<and> n \<le> 13) \<or> (28 \<le> n \<and> n \<le> 32))"

text \<open>\<^verbatim>\<open>s.rstrip()\<close> and \<^verbatim>\<open>s.strip()\<close>.\<close>

definition rstrip :: "string \<Rightarrow> string" where
  "rstrip s = rev (dropWhile isspace (rev s))"

definition strip :: "string \<Rightarrow> string" where
  "strip s = rstrip (dropWhile isspace s)"

text \<open>\<^verbatim>\<open>s.replace(a, b)\<close> for single characters \<^verbatim>\<open>a\<close>, \<^verbatim>\<open>b\<close>.\<close>

definition replace_char :: "char \<Rightarrow> char \<Rightarrow> string \<Rightarrow> string" where
  "replace_char a b s = map (\<lambda>c. if c = a then b else c) s"

text \<open>\<^verbatim>\<open>s.startswith(p)\<close> and the substring test \<^verbatim>\<open>sub in s\<close>.\<close>

fun startswith :: "string \<Rightarrow> string \<Rightarrow> bool" where
  "startswith s [] = True"
| "startswith [] (p # ps) = False"
| "startswith (c # cs) (p # ps) = (c = p \<and> startswith cs ps)"

fun str_contains :: "string \<Rightarrow> string \<Rightarrow> bool" where
  "str_contains [] sub = (sub = [])"
| "str_contains (c # cs) sub = (startswith (c # cs) sub \<or> str_contains cs sub)"

text \<open>\<^verbatim>\<open>s.split(sep)\<close> for a single character \<^verbatim>\<open>sep\<close>: never empty.\<close>

fun split_char :: "char \<Rightarrow> string \<Rightarrow> string list" where
  "split_char sep [] = [[]]"
| "split_char sep (c # cs) =
     (if c = sep then [] # split_char sep cs
      else (case split_char sep cs of
              [] \<Rightarrow> [[c]]
            | w # ws \<Rightarrow> (c # w) # ws))"

text \<open>\<^verbatim>\<open>sep.join(ws)\<close>.\<close>

fun join_with :: "string \<Rightarrow> string list \<Rightarrow> string" where
  "join_with sep [] = []"
| "join_with sep [w] = w"
| "join_with sep (w # v # ws) = w @ sep @ join_with sep (v # ws)"

text \<open>\<^verbatim>\<open>s.rfind(c)\<close> for a character: the last index of \<^verbatim>\<open>c\<close>, or \<^verbatim>\<open>-1\<close>.\<close>

fun rfind :: "string \<Rightarrow> char \<Rightarrow> int" where
  "rfind [] x = -1"
| "rfind (c # cs) x =
     (let r = rfind cs x in
      if r \<noteq> -1 then r + 1 else if c = x then 0 else -1)"

subsection \<open>Formatting numbers\<close>

text \<open>\<^verbatim>\<open>str(n)\<close> for integers, \<^verbatim>\<open>str(b)\<close> for booleans.\<close>

fun str_nat :: "nat \<Rightarrow> string" where
  "str_nat n = (if n < 10 then [''0123456789'' ! n]
                else str_nat (n div 10) @ [''0123456789'' ! (n mod 10)])"

declare str_nat.simps [simp del]

definition str_int :: "int \<Rightarrow> string" where
  "str_int i = (if i < 0 then CHR ''-'' # str_nat (nat (- i)) else str_nat (nat i))"

definition str_bool :: "bool \<Rightarrow> string" where
  "str_bool b = (if b then ''True'' else ''False'')"

text \<open>Zero padding to a width, as \<^verbatim>\<open>%02d\<close> and \<^verbatim>\<open>%04d\<close> do.\<close>

definition zero_pad :: "nat \<Rightarrow> nat \<Rightarrow> string" where
  "zero_pad width n = (let s = str_nat n in replicate (width - length s) CHR ''0'' @ s)"

text \<open>
  \<^verbatim>\<open>f"{x:.2f}"\<close>: the value rounded to two decimals, ties to even. A wall-clock
  difference is a finite float, hence a rational, and the conversion is exact.
\<close>

definition round_half_even :: "rat \<Rightarrow> int" where
  "round_half_even q =
     (let f = \<lfloor>q\<rfloor>; r = q - of_int f in
      if r < 1 / 2 then f
      else if 1 / 2 < r then f + 1
      else if even f then f else f + 1)"

definition format_2f :: "rat \<Rightarrow> string" where
  "format_2f x =
     (let n = round_half_even (\<bar>x\<bar> * 100) in
      (if x < 0 then ''-'' else []) @ str_nat (nat (n div 100)) @ ''.'' @ zero_pad 2 (nat (n mod 100)))"

subsection \<open>pathlib\<close>

text \<open>
  A pure POSIX path: whether it has a root, and its components. \<^verbatim>\<open>Path(s)\<close> drops empty
  and \<^verbatim>\<open>.\<close> components; \<^verbatim>\<open>a / b\<close> is \<^verbatim>\<open>b\<close> when \<^verbatim>\<open>b\<close> is absolute; \<^verbatim>\<open>str\<close> of
  the empty relative path is \<^verbatim>\<open>.\<close>; \<^verbatim>\<open>stem\<close> is the last component up to its last dot,
  unless that dot is its first or last character. (A root of exactly two slashes, which
  pathlib keeps apart, is not distinguished from one slash.)
\<close>

record path =
  is_absolute :: bool
  parts :: "string list"

definition Path :: "string \<Rightarrow> path" where
  "Path s = \<lparr> is_absolute = startswith s ''/'',
             parts = filter (\<lambda>p. p \<noteq> [] \<and> p \<noteq> ''.'') (split_char CHR ''/'' s) \<rparr>"

definition str_path :: "path \<Rightarrow> string" where
  "str_path p =
     (if is_absolute p then ''/'' @ join_with ''/'' (parts p)
      else if parts p = [] then ''.'' else join_with ''/'' (parts p))"

definition joinpath :: "path \<Rightarrow> path \<Rightarrow> path" where
  "joinpath a b =
     (if is_absolute b then b
      else \<lparr> is_absolute = is_absolute a, parts = parts a @ parts b \<rparr>)"

definition path_name :: "path \<Rightarrow> string" where
  "path_name p = (if parts p = [] then [] else last (parts p))"

definition path_stem :: "path \<Rightarrow> string" where
  "path_stem p =
     (let name = path_name p; i = rfind name CHR ''.'' in
      if 0 < i \<and> i < int (length name) - 1 then take (nat i) name else name)"

subsection \<open>Data model\<close>

text \<open>
  A test-case descriptor: the dictionary of one configuration entry, field \<open>tc_k\<close> for
  key \<open>k\<close>.
\<close>

record descriptor =
  tc_name :: "string option"
  tc_script_path :: "string option"
  tc_expected_success :: "bool option"
  tc_timeout :: "int option"
  tc_expected_output :: "string option"
  tc_expected_result_file :: "string option"

text \<open>An entry of the configuration list: a bare string or a dictionary.\<close>

datatype entry = Bare string | Full descriptor

text \<open>The dictionary \<^verbatim>\<open>execute_bash_script\<close> returns.\<close>

record exec_result =
  returncode :: int
  stdout :: string
  stderr :: string
  execution_time :: rat
  success :: bool

text \<open>
  What \<^verbatim>\<open>subprocess.run\<close> does: it completes (exit code, captured output, and the
  seconds \<^verbatim>\<open>time.time()\<close> measured around it), raises \<^verbatim>\<open>TimeoutExpired\<close>, or raises
  another exception \<open>e\<close>, given by \<^verbatim>\<open>str(e)\<close>.
\<close>

datatype proc = Completed int string string rat | TimeoutExpired | RunError string

text \<open>
  The exceptions raised in the harness; \<^verbatim>\<open>Failed\<close> is what \<^verbatim>\<open>pytest.fail\<close> raises.
\<close>

datatype exn =
    AssertionError string
  | UnboundLocalError string
  | TypeError
  | FileNotFoundError string
  | IsADirectoryError string
  | Failed string

record datetime =
  year :: nat
  month :: nat
  day :: nat
  hour :: nat
  minute :: nat
  second :: nat

text \<open>\<^verbatim>\<open>strftime("%Y%m%d_%H%M%S")\<close> and \<^verbatim>\<open>strftime("%Y-%m-%d %H:%M:%S")\<close>.\<close>

definition strftime_compact :: "datetime \<Rightarrow> string" where
  "strftime_compact t =
     zero_pad 4 (year t) @ zero_pad 2 (month t) @ zero_pad 2 (day t) @ ''_'' @
     zero_pad 2 (hour t) @ zero_pad 2 (minute t) @ zero_pad 2 (second t)"

definition strftime_iso :: "datetime \<Rightarrow> string" where
  "strftime_iso t =
     zero_pad 4 (year t) @ ''-'' @ zero_pad 2 (month t) @ ''-'' @ zero_pad 2 (day t) @ '' '' @
     zero_pad 2 (hour t) @ '':'' @ zero_pad 2 (minute t) @ '':'' @ zero_pad 2 (second t)"

text \<open>
  The environment: \<^verbatim>\<open>Path(__file__).parent\<close>, the working directory, the
  \<open>n\<close>-th reading of \<^verbatim>\<open>datetime.now()\<close>, \<^verbatim>\<open>chmod\<close> (the text of the exception it
  raises, if any), \<^verbatim>\<open>subprocess.run(['bash', path], timeout=t)\<close>, and \<^verbatim>\<open>json.load\<close>
  (\<^const>\<open>None\<close> for \<^verbatim>\<open>JSONDecodeError\<close>).
\<close>

record env =
  file_parent :: path
  cwd :: path
  clock :: "nat \<Rightarrow> datetime"
  chmod :: "path \<Rightarrow> string option"
  subprocess_run :: "string \<Rightarrow> int \<Rightarrow> proc"
  json_load :: "string \<Rightarrow> entry list option"

text \<open>
  The state: the module globals \<^verbatim>\<open>TEST_RUN_DIR\<close> and \<^verbatim>\<open>RESULT_LOG_FILE\<close>, the files
  and directories of the file system, the lines printed, and the number of clock
  readings taken so far.
\<close>

record world =
  TEST_RUN_DIR :: "path option"
  RESULT_LOG_FILE :: "path option"
  files :: "path \<rightharpoonup> string"
  dirs :: "path set"
  console :: "string list"
  ticks :: nat

subsection \<open>File system and clock\<close>

definition abs_path :: "env \<Rightarrow> path \<Rightarrow> path" where
  "abs_path env p = (if is_absolute p then p else joinpath (cwd env) p)"

definition path_exists :: "env \<Rightarrow> world \<Rightarrow> path \<Rightarrow> bool" where
  "path_exists env w p = (files w (abs_path env p) \<noteq> None \<or> abs_path env p \<in> dirs w)"

text \<open>\<^verbatim>\<open>mkdir(exist_ok=True)\<close>.\<close>

definition mkdir :: "env \<Rightarrow> world \<Rightarrow> path \<Rightarrow> world" where
  "mkdir env w p = w\<lparr>dirs := insert (abs_path env p) (dirs w)\<rparr>"

text \<open>All that is written between \<^verbatim>\<open>open(p, 'w')\<close> and the end of its \<^verbatim>\<open>with\<close> block.\<close>

definition write_file :: "env \<Rightarrow> world \<Rightarrow> path \<Rightarrow> string \<Rightarrow> world" where
  "write_file env w p s = w\<lparr>files := (files w)(abs_path env p \<mapsto> s)\<rparr>"

text \<open>The same for \<^verbatim>\<open>open(p, 'a')\<close>.\<close>

definition append_file :: "env \<Rightarrow> world \<Rightarrow> path \<Rightarrow> string \<Rightarrow> world" where
  "append_file env w p s =
     w\<lparr>files := (files w)(abs_path env p \<mapsto>
        (case files w (abs_path env p) of None \<Rightarrow> s | Some old \<Rightarrow> old @ s))\<rparr>"

definition print :: "world \<Rightarrow> string \<Rightarrow> world" where
  "print w s = w\<lparr>console := console w @ [s]\<rparr>"

text \<open>\<^verbatim>\<open>open(p, 'r')\<close> followed by \<^verbatim>\<open>read()\<close>.\<close>

definition read_file :: "env \<Rightarrow> world \<Rightarrow> path \<Rightarrow> exn + string" where
  "read_file env w p =
     (case files w (abs_path env p) of
        Some s \<Rightarrow> Inr s
      | None \<Rightarrow> if abs_path env p \<in> dirs w then Inl (IsADirectoryError (str_path p))
                else Inl (FileNotFoundError (str_path p)))"

text \<open>\<^verbatim>\<open>datetime.now()\<close>: the next reading of the clock.\<close>

definition now :: "env \<Rightarrow> world \<Rightarrow> datetime \<times> world" where
  "now env w = (clock env (ticks w), w\<lparr>ticks := Suc (ticks w)\<rparr>)"

subsection \<open>The run logger\<close>

text \<open>\<^verbatim>\<open>setup_logging\<close> (lines 13 to 38).\<close>

definition setup_logging :: "env \<Rightarrow> world \<Rightarrow> world" where
  "setup_logging env w =
     (if TEST_RUN_DIR w \<noteq> None then w
      else
        let logs_dir = joinpath (file_parent env) (Path ''logs'');
            w = mkdir env w logs_dir;
            (t, w) = now env w;
            timestamp = strftime_compact t;
            run_dir = joinpath logs_dir (Path (''test_run_'' @ timestamp));
            w = w\<lparr>TEST_RUN_DIR := Some run_dir\<rparr>;
            w = mkdir env w run_dir;
            result_log = joinpath run_dir (Path ''result.log'');
            w = w\<lparr>RESULT_LOG_FILE := Some result_log\<rparr>;
            (t, w) = now env w;
            w = write_file env w result_log
                  (''Test Run Started: '' @ strftime_iso t @ [NL] @
                   replicate 50 CHR ''='' @ [NL, NL])
        in print w (''Test logs will be saved to: '' @ str_path run_dir))"

text \<open>The name of the per-test log file (lines 49 and 50).\<close>

definition safe_name :: "string \<Rightarrow> string" where
  "safe_name test_name =
     rstrip (filter (\<lambda>c. isalnum c \<or> c \<in> {CHR '' '', CHR ''-'', CHR ''_''}) test_name)"

definition test_log_name :: "string \<Rightarrow> string" where
  "test_log_name test_name = replace_char CHR '' '' CHR ''_'' (safe_name test_name) @ ''.log''"

text \<open>The status line (lines 55 to 59).\<close>

definition status_of :: "exec_result \<Rightarrow> bool \<Rightarrow> string option \<Rightarrow> string" where
  "status_of result expected_success validation_error =
     (let script_success = (success result = expected_success);
          validation_success = (validation_error = None);
          overall_success = (script_success \<and> validation_success)
      in if overall_success then ''PASSED'' else ''FAILED'')"

text \<open>Python's truth value of an optional string: \<^verbatim>\<open>None\<close> and \<^verbatim>\<open>""\<close> are false.\<close>

definition truthy :: "string option \<Rightarrow> bool" where
  "truthy v = (case v of None \<Rightarrow> False | Some s \<Rightarrow> s \<noteq> [])"

text \<open>The content of the per-test log file (lines 62 to 87).\<close>

definition test_log_content ::
  "string \<Rightarrow> path \<Rightarrow> string \<Rightarrow> exec_result \<Rightarrow> bool \<Rightarrow> string option \<Rightarrow> string" where
  "test_log_content test_name script_path timestamp result expected_success validation_error =
     ''Test: '' @ test_name @ [NL] @
     ''Script: '' @ str_path script_path @ [NL] @
     ''Timestamp: '' @ timestamp @ [NL] @
     ''Status: '' @ status_of result expected_success validation_error @ [NL] @
     ''Expected Success: '' @ str_bool expected_success @ [NL] @
     ''Actual Success: '' @ str_bool (success result) @ [NL] @
     ''Return Code: '' @ str_int (returncode result) @ [NL] @
     ''Execution Time: '' @ format_2f (execution_time result) @ '' seconds'' @ [NL] @
     [NL] @
     ''STDOUT:'' @ [NL] @
     (if stdout result \<noteq> [] then stdout result else ''(no output)'') @ [NL] @
     [NL] @
     ''STDERR:'' @ [NL] @
     (if stderr result \<noteq> [] then stderr result else ''(no errors)'') @ [NL] @
     [NL] @
     (case validation_error of
        None \<Rightarrow> []
      | Some v \<Rightarrow> if v \<noteq> [] then [NL] @ ''VALIDATION ERROR:'' @ [NL] @ v @ [NL] @ [NL] else []) @
     replicate 50 CHR ''='' @ [NL]"

text \<open>The block appended to \<^verbatim>\<open>result.log\<close> (lines 95 to 108).\<close>

definition summary_entry ::
  "string \<Rightarrow> path \<Rightarrow> string \<Rightarrow> exec_result \<Rightarrow> bool \<Rightarrow> string option \<Rightarrow> string" where
  "summary_entry test_name script_path timestamp result expected_success validation_error =
     ''['' @ timestamp @ ''] '' @ status_of result expected_success validation_error @
       '': '' @ test_name @ [NL] @
     ''  Script: '' @ str_path script_path @ [NL] @
     ''  Execution Time: '' @ format_2f (execution_time result) @ ''s'' @ [NL] @
     ''  Return Code: '' @ str_int (returncode result) @ [NL] @
     (if success result \<noteq> expected_success
      then ''  Script Status: Expected '' @ (if expected_success then ''success'' else ''failure'') @
           '' but got '' @ (if success result then ''success'' else ''failure'') @ [NL]
      else []) @
     (case validation_error of
        None \<Rightarrow> []
      | Some v \<Rightarrow> if v \<noteq> []
                  then ''  Validation Error: '' @ hd (split_char NL v) @ ''...'' @ [NL]
                  else []) @
     (if stderr result \<noteq> []
      then ''  Error: '' @ take 100 (stderr result) @ ''...'' @ [NL]
      else []) @
     [NL]"

text \<open>
  \<^verbatim>\<open>log_test_result\<close> (lines 40 to 108). With a global that is \<^verbatim>\<open>None\<close> the path
  operations raise \<^verbatim>\<open>TypeError\<close>; the per-test file is written before the summary is
  opened.
\<close>

definition log_test_result ::
  "env \<Rightarrow> world \<Rightarrow> string \<Rightarrow> path \<Rightarrow> exec_result \<Rightarrow> bool \<Rightarrow> string option \<Rightarrow> exn option \<times> world" where
  "log_test_result env w test_name script_path result expected_success validation_error =
     (let w = (if TEST_RUN_DIR w = None then setup_logging env w else w) in
      case TEST_RUN_DIR w of
        None \<Rightarrow> (Some TypeError, w)
      | Some run_dir \<Rightarrow>
          let test_log_file = joinpath run_dir (Path (test_log_name test_name));
              (t, w) = now env w;
              timestamp = strftime_iso t;
              w = write_file env w test_log_file
                    (test_log_content test_name script_path timestamp result
                       expected_success validation_error)
          in (case RESULT_LOG_FILE w of
                None \<Rightarrow> (Some TypeError, w)
              | Some result_log \<Rightarrow>
                  (None, append_file env w result_log
                     (summary_entry test_name script_path timestamp result
                        expected_success validation_error))))"

text \<open>
  A run is active in directory \<open>run_dir\<close>: the globals are as \<open>setup_logging\<close> sets
  them.
\<close>

definition run_active :: "world \<Rightarrow> path \<Rightarrow> bool" where
  "run_active w run_dir =
     (TEST_RUN_DIR w = Some run_dir \<and>
      RESULT_LOG_FILE w = Some (joinpath run_dir (Path ''result.log'')))"

text \<open>
  The keys in the file store of the per-test log of a test name and of the summary log,
  for a run in \<open>run_dir\<close>.
\<close>

definition test_log_key :: "env \<Rightarrow> path \<Rightarrow> string \<Rightarrow> path" where
  "test_log_key env run_dir test_name =
     abs_path env (joinpath run_dir (Path (test_log_name test_name)))"

definition summary_log_key :: "env \<Rightarrow> path \<Rightarrow> path" where
  "summary_log_key env run_dir = abs_path env (joinpath run_dir (Path ''result.log''))"

text \<open>The globals never make the logger raise: no summary log only before the set-up.\<close>

definition logger_ready :: "world \<Rightarrow> bool" where
  "logger_ready w = (TEST_RUN_DIR w = None \<or> RESULT_LOG_FILE w \<noteq> None)"

text \<open>\<^verbatim>\<open>finalize_logging\<close> (lines 110 to 117).\<close>

definition finalize_logging :: "env \<Rightarrow> world \<Rightarrow> world" where
  "finalize_logging env w =
     (case RESULT_LOG_FILE w of
        None \<Rightarrow> w
      | Some result_log \<Rightarrow>
          if path_exists env w result_log then
            let (t, w) = now env w
            in append_file env w result_log
                 (replicate 50 CHR ''='' @ [NL] @
                  ''Test Run Completed: '' @ strftime_iso t @ [NL])
          else w)"

subsection \<open>The test-case loader\<close>

text \<open>The body of the normalising loop (lines 134 to 141).\<close>

definition normalize_entry :: "entry \<Rightarrow> descriptor" where
  "normalize_entry tc =
     (case tc of
        Bare s \<Rightarrow>
          \<lparr> tc_name = Some (''Test '' @ path_stem (Path s)),
            tc_script_path = Some s,
            tc_expected_success = None,
            tc_timeout = None,
            tc_expected_output = None,
            tc_expected_result_file = None \<rparr>
      | Full d \<Rightarrow> d)"

text \<open>The loop itself: \<^verbatim>\<open>normalized_test_cases\<close> is the accumulator.\<close>

fun normalize_loop :: "descriptor list \<Rightarrow> entry list \<Rightarrow> descriptor list" where
  "normalize_loop normalized_test_cases [] = normalized_test_cases"
| "normalize_loop normalized_test_cases (tc # test_cases) =
     normalize_loop (normalized_test_cases @ [normalize_entry tc]) test_cases"

text \<open>
  \<^verbatim>\<open>load_test_cases\<close> (lines 119 to 147); \<open>locate_testcase_file\<close> is lines 121 to 125. Only \<^verbatim>\<open>FileNotFoundError\<close> and
  \<^verbatim>\<open>JSONDecodeError\<close> are caught.
\<close>

definition locate_testcase_file :: "env \<Rightarrow> world \<Rightarrow> path" where
  "locate_testcase_file env w =
     (let testcase_file = Path ''Testcase.json'' in
      if \<not> path_exists env w testcase_file
      then let script_dir = file_parent env in joinpath script_dir (Path ''Testcase.json'')
      else testcase_file)"

definition load_test_cases :: "env \<Rightarrow> world \<Rightarrow> exn + descriptor list" where
  "load_test_cases env w =
     (let testcase_file = locate_testcase_file env w
      in case read_file env w testcase_file of
           Inl (FileNotFoundError _) \<Rightarrow>
             Inl (Failed (''Testcase.json file not found at '' @ str_path testcase_file))
         | Inl e \<Rightarrow> Inl e
         | Inr text \<Rightarrow>
             (case json_load env text of
                None \<Rightarrow>
                  Inl (Failed (''Testcase.json at '' @ str_path testcase_file @
                               '' contains invalid JSON''))
              | Some test_cases \<Rightarrow> Inr (normalize_loop [] test_cases)))"

subsection \<open>The script executor\<close>

text \<open>
  \<^verbatim>\<open>execute_bash_script\<close> (lines 163 to 208); \<open>resolve_exec_path\<close> is lines 165 to 171. \<^verbatim>\<open>chmod\<close> and \<^verbatim>\<open>subprocess.run\<close>
  are inside the \<^verbatim>\<open>try\<close>; every exception but \<^verbatim>\<open>TimeoutExpired\<close> takes the last
  handler.
\<close>

definition resolve_exec_path :: "env \<Rightarrow> world \<Rightarrow> path \<Rightarrow> path" where
  "resolve_exec_path env w script_path =
     (if \<not> is_absolute script_path then
        let script_dir = file_parent env;
            full_path = joinpath script_dir script_path
        in if path_exists env w full_path then full_path else script_path
      else script_path)"

definition execute_bash_script :: "env \<Rightarrow> world \<Rightarrow> path \<Rightarrow> int \<Rightarrow> exec_result" where
  "execute_bash_script env w script_path timeout =
     (let script_path = resolve_exec_path env w script_path
      in case chmod env script_path of
           Some e \<Rightarrow>
             \<lparr> returncode = -1, stdout = [], stderr = e, execution_time = 0, success = False \<rparr>
         | None \<Rightarrow>
             (case subprocess_run env (str_path script_path) timeout of
                Completed rc out err elapsed \<Rightarrow>
                  \<lparr> returncode = rc, stdout = out, stderr = err,
                    execution_time = elapsed, success = (rc = 0) \<rparr>
              | TimeoutExpired \<Rightarrow>
                  \<lparr> returncode = -1, stdout = [],
                    stderr = ''Script execution timed out after '' @ str_int timeout @ '' seconds'',
                    execution_time = of_int timeout, success = False \<rparr>
              | RunError e \<Rightarrow>
                  \<lparr> returncode = -1, stdout = [], stderr = e,
                    execution_time = 0, success = False \<rparr>))"

subsection \<open>The test function\<close>

text \<open>The three \<^verbatim>\<open>get\<close> calls with a default (lines 212, 214 and 215).\<close>

definition get_name :: "descriptor \<Rightarrow> string" where
  "get_name test_case = (case tc_name test_case of None \<Rightarrow> ''Unnamed test'' | Some n \<Rightarrow> n)"

definition get_expected_success :: "descriptor \<Rightarrow> bool" where
  "get_expected_success test_case =
     (case tc_expected_success test_case of None \<Rightarrow> True | Some b \<Rightarrow> b)"

definition get_timeout :: "descriptor \<Rightarrow> int" where
  "get_timeout test_case = (case tc_timeout test_case of None \<Rightarrow> 30 | Some t \<Rightarrow> t)"

text \<open>
  Resolving the script (lines 219 to 230). The second component is the local variable
  \<^verbatim>\<open>script_dir\<close>, which is bound only on the relative branch.
\<close>

definition resolve_script :: "env \<Rightarrow> world \<Rightarrow> string \<Rightarrow> path \<times> path option" where
  "resolve_script env w sp =
     (let script_path = Path sp in
      if \<not> is_absolute script_path then
        let script_dir = file_parent env;
            full_path = joinpath script_dir script_path
        in if path_exists env w full_path then (full_path, Some script_dir)
           else
             let full_path_sh = joinpath script_dir (Path (str_path script_path @ ''.sh''))
             in if path_exists env w full_path_sh then (full_path_sh, Some script_dir)
                else (script_path, Some script_dir)
      else (script_path, None))"

text \<open>The message of the assertion on the script's success (lines 239 to 242).\<close>

definition success_mismatch_message :: "string \<Rightarrow> bool \<Rightarrow> string" where
  "success_mismatch_message name expected_success =
     ''Test '' @ name @ '' '' @ (if expected_success then ''failed'' else ''succeeded'') @ '' '' @
     ''but was expected to '' @ (if expected_success then ''succeed'' else ''fail'') @ ''.''"

text \<open>The substring check (lines 245 to 251).\<close>

definition expected_output_message :: "string \<Rightarrow> string" where
  "expected_output_message expected =
     ''Expected output '' @ [QUOTE] @ expected @ [QUOTE] @ '' not found in script output''"

definition check_expected_output ::
  "descriptor \<Rightarrow> exec_result \<Rightarrow> string option \<Rightarrow> string option" where
  "check_expected_output test_case result validation_error =
     (case tc_expected_output test_case of
        None \<Rightarrow> validation_error
      | Some expected \<Rightarrow>
          if expected \<noteq> [] then
            if str_contains (stdout result) expected then validation_error
            else Some (expected_output_message expected)
          else validation_error)"

text \<open>The file-content check (lines 254 to 274).\<close>

definition result_file_mismatch_message :: "string \<Rightarrow> string \<Rightarrow> string \<Rightarrow> string" where
  "result_file_mismatch_message file_name expected_content actual_output =
     ''Expected output from '' @ file_name @ '' does not match actual output.'' @ [NL] @
     ''Expected:'' @ [NL] @ expected_content @ [NL] @
     ''Actual:'' @ [NL] @ actual_output"

definition result_file_missing_message :: "path \<Rightarrow> string" where
  "result_file_missing_message expected_result_file =
     ''Expected result file '' @ str_path expected_result_file @ '' not found''"

definition resolve_result_file :: "env \<Rightarrow> string \<Rightarrow> path" where
  "resolve_result_file env file_name =
     (let expected_result_file = Path file_name in
      if \<not> is_absolute expected_result_file
      then joinpath (file_parent env) expected_result_file
      else expected_result_file)"

definition check_expected_result_file ::
  "env \<Rightarrow> world \<Rightarrow> descriptor \<Rightarrow> exec_result \<Rightarrow> string option \<Rightarrow> exn + string option" where
  "check_expected_result_file env w test_case result validation_error =
     (case tc_expected_result_file test_case of
        None \<Rightarrow> Inr validation_error
      | Some file_name \<Rightarrow>
          if file_name \<noteq> [] then
            let expected_result_file = resolve_result_file env file_name in
            if path_exists env w expected_result_file then
              (case read_file env w expected_result_file of
                 Inl e \<Rightarrow> Inl e
               | Inr content \<Rightarrow>
                   let expected_content = strip content;
                       actual_output = strip (stdout result)
                   in if expected_content = actual_output then Inr validation_error
                      else Inr (Some (result_file_mismatch_message file_name
                                        expected_content actual_output)))
            else Inr (Some (result_file_missing_message expected_result_file))
          else Inr validation_error)"

text \<open>
  Lines 234 to 281: run the script, assert on its success, validate, log, re-raise.
\<close>

definition run_and_validate ::
  "env \<Rightarrow> world \<Rightarrow> descriptor \<Rightarrow> string \<Rightarrow> path \<Rightarrow> bool \<Rightarrow> int \<Rightarrow> exn option \<times> world" where
  "run_and_validate env w test_case name script_path expected_success timeout =
     (let result = execute_bash_script env w script_path timeout in
      if success result \<noteq> expected_success
      then (Some (AssertionError (success_mismatch_message name expected_success)), w)
      else
        let validation_error = check_expected_output test_case result None in
        (case check_expected_result_file env w test_case result validation_error of
           Inl e \<Rightarrow> (Some e, w)
         | Inr validation_error \<Rightarrow>
             (case log_test_result env w name script_path result expected_success
                     validation_error of
                (Some e, w) \<Rightarrow> (Some e, w)
              | (None, w) \<Rightarrow>
                  (case validation_error of
                     None \<Rightarrow> (None, w)
                   | Some v \<Rightarrow> if v \<noteq> [] then (Some (AssertionError v), w) else (None, w)))))"

text \<open>
  \<^verbatim>\<open>test_bash_script\<close> (lines 210 to 281). The result is the exception that leaves the
  function (\<^const>\<open>None\<close> when it returns) and the state it leaves behind. The message of
  the assertion in line 232 reads \<^verbatim>\<open>script_dir\<close>.
\<close>

definition script_not_found_message :: "string \<Rightarrow> path \<Rightarrow> path \<Rightarrow> string" where
  "script_not_found_message name script_path script_dir =
     ''Script '' @ str_path script_path @ '' not found for test '' @ name @
     ''. Checked paths: '' @ str_path script_path @ '', '' @
     str_path (joinpath script_dir script_path)"

definition test_bash_script :: "env \<Rightarrow> world \<Rightarrow> descriptor \<Rightarrow> exn option \<times> world" where
  "test_bash_script env w test_case =
     (let name = get_name test_case;
          expected_success = get_expected_success test_case;
          timeout = get_timeout test_case
      in case tc_script_path test_case of
           None \<Rightarrow> (Some (AssertionError (''No script path specified for test '' @ name)), w)
         | Some sp \<Rightarrow>
             let (script_path, script_dir) = resolve_script env w sp in
             if \<not> path_exists env w script_path then
               (case script_dir of
                  None \<Rightarrow> (Some (UnboundLocalError ''script_dir''), w)
                | Some script_dir \<Rightarrow>
                    (Some (AssertionError (script_not_found_message name script_path script_dir)), w))
             else run_and_validate env w test_case name script_path expected_success timeout)"

text \<open>
  The hooks \<^verbatim>\<open>pytest_configure\<close> and \<^verbatim>\<open>pytest_unconfigure\<close> (lines 283 to 289).
\<close>

definition pytest_configure :: "env \<Rightarrow> world \<Rightarrow> world" where
  "pytest_configure env w = setup_logging env w"

definition pytest_unconfigure :: "env \<Rightarrow> world \<Rightarrow> world" where
  "pytest_unconfigure env w = finalize_logging env w"

subsection \<open>A small installation\<close>

text \<open>
  A harness installed in \<^verbatim>\<open>/h\<close> and started there, with four scripts: one prints
  \<^verbatim>\<open>42\<close> and exits 0, one exits 1, one never finishes, one cannot be made executable.
  The expected-result file \<^verbatim>\<open>/h/expected.txt\<close> holds \<^verbatim>\<open>42\<close> and a newline, the
  configuration file the one-element list \<^verbatim>\<open>["foo.sh"]\<close>. Used to run the definitions
  on concrete inputs.
\<close>

definition demo_config :: string where
  "demo_config = ''['' @ [DQUOTE] @ ''foo.sh'' @ [DQUOTE] @ '']''"

definition demo_env :: env where
  "demo_env =
     \<lparr> file_parent = Path ''/h'',
       cwd = Path ''/h'',
       clock = (\<lambda>n. \<lparr> year = 2024, month = 1, day = 2, hour = 3, minute = 4, second = n \<rparr>),
       chmod = (\<lambda>p. if p = Path ''/h/locked.sh'' then Some ''Permission denied'' else None),
       subprocess_run = (\<lambda>s t.
          if s = ''/h/ok.sh'' then Completed 0 ''42'' [] (1 / 4)
          else if s = ''/h/fail.sh'' then Completed 1 ''43'' ''boom'' (1 / 2)
          else if s = ''/h/slow.sh'' then TimeoutExpired
          else RunError ''No such file or directory''),
       json_load = (\<lambda>s. if s = demo_config then Some [Bare ''foo.sh''] else None) \<rparr>"

definition demo_world :: world where
  "demo_world =
     \<lparr> TEST_RUN_DIR = None,
       RESULT_LOG_FILE = None,
       files = [Path ''/h/ok.sh'' \<mapsto> ''echo -n 42'',
                Path ''/h/fail.sh'' \<mapsto> ''echo -n 43; exit 1'',
                Path ''/h/slow.sh'' \<mapsto> ''sleep 1000'',
                Path ''/h/locked.sh'' \<mapsto> ''true'',
                Path ''/h/expected.txt'' \<mapsto> [CHR ''4'', CHR ''2'', NL],
                Path ''/h/Testcase.json'' \<mapsto> demo_config],
       dirs = {Path ''/h''},
       console = [],
       ticks = 0 \<rparr>"

definition demo_case :: "string \<Rightarrow> string \<Rightarrow> descriptor" where
  "demo_case test_name sp =
     \<lparr> tc_name = Some test_name,
       tc_script_path = Some sp,
       tc_expected_success = None,
       tc_timeout = None,
       tc_expected_output = None,
       tc_expected_result_file = None \<rparr>"

text \<open>
  Descriptors for the installation: one whose script fails while both output checks would
  fail too, and three that compare with \<^verbatim>\<open>expected.txt\<close>.
\<close>

definition demo_mismatch_case :: descriptor where
  "demo_mismatch_case =
     (demo_case ''both'' ''fail.sh'')
       \<lparr> tc_expected_output := Some ''Hello'', tc_expected_result_file := Some ''expected.txt'' \<rparr>"

definition demo_match_case :: descriptor where
  "demo_match_case =
     (demo_case ''match'' ''ok.sh'') \<lparr> tc_expected_result_file := Some ''expected.txt'' \<rparr>"

definition demo_differ_case :: descriptor where
  "demo_differ_case =
     (demo_case ''differ'' ''fail.sh'')
       \<lparr> tc_expected_success := Some False, tc_expected_result_file := Some ''expected.txt'' \<rparr>"

definition demo_both_case :: descriptor where
  "demo_both_case =
     (demo_case ''both'' ''fail.sh'')
       \<lparr> tc_expected_success := Some False, tc_expected_output := Some ''Hello'',
         tc_expected_result_file := Some ''expected.txt'' \<rparr>"

text \<open>
  A run of the installation: \<^verbatim>\<open>pytest_configure\<close>, then a test named \<^verbatim>\<open>a b\<close> is
  logged, then either one named \<^verbatim>\<open>a_b\<close> or one named \<^verbatim>\<open>c\<close>.
\<close>

definition demo_result :: exec_result where
  "demo_result =
     \<lparr> returncode = 0, stdout = ''42'', stderr = [], execution_time = 1 / 4, success = True \<rparr>"

definition demo_started :: world where
  "demo_started = pytest_configure demo_env demo_world"

definition demo_logged_first :: world where
  "demo_logged_first =
     snd (log_test_result demo_env demo_started ''a b'' (Path ''/h/ok.sh'') demo_result True None)"

definition demo_logged_same :: world where
  "demo_logged_same =
     snd (log_test_result demo_env demo_logged_first ''a_b'' (Path ''/h/ok.sh'') demo_result True None)"

definition demo_logged_other :: world where
  "demo_logged_other =
     snd (log_test_result demo_env demo_logged_first ''c'' (Path ''/h/ok.sh'') demo_result True None)"

text \<open>
  The same installation with a parser that returns a dictionary and a bare string.
\<close>

definition demo_mixed_env :: env where
  "demo_mixed_env =
     demo_env \<lparr> json_load := (\<lambda>s. Some [Full demo_match_case, Bare ''scripts/bar.test.sh'']) \<rparr>"

section \<open>Properties\<close>

lemmas path_defs = Path_def joinpath_def str_path_def abs_path_def path_exists_def
lemmas demo_defs = demo_env_def demo_world_def demo_case_def demo_config_def
lemmas get_defs = get_name_def get_expected_success_def get_timeout_def

subsection \<open>The script executor\<close>

text \<open>
  C3. When the script can be made executable and \<^verbatim>\<open>subprocess.run\<close> raises
  \<^verbatim>\<open>TimeoutExpired\<close>, \<open>execute_bash_script\<close> returns return code \<open>-1\<close>, no success, an
  empty standard output, the timeout message as standard error, and the timeout itself
  as execution time.
\<close>

theorem execute_bash_script_timeout:
  assumes "chmod env (resolve_exec_path env w script_path) = None"
    and "subprocess_run env (str_path (resolve_exec_path env w script_path)) timeout = TimeoutExpired"
  shows "execute_bash_script env w script_path timeout =
           \<lparr> returncode = -1, stdout = [],
             stderr = ''Script execution timed out after '' @ str_int timeout @ '' seconds'',
             execution_time = of_int timeout, success = False \<rparr>"
  using assms by (simp add: execute_bash_script_def)

text \<open>The script of the installation that never finishes, run with a timeout of 30.\<close>

theorem execute_bash_script_timeout_witness:
  "chmod demo_env (resolve_exec_path demo_env demo_world (Path ''slow.sh'')) = None \<and>
   subprocess_run demo_env (str_path (resolve_exec_path demo_env demo_world (Path ''slow.sh''))) 30
     = TimeoutExpired \<and>
   execute_bash_script demo_env demo_world (Path ''slow.sh'') 30 =
     \<lparr> returncode = -1, stdout = [],
       stderr = ''Script execution timed out after 30 seconds'',
       execution_time = 30, success = False \<rparr>"
proof -
  have p: "resolve_exec_path demo_env demo_world (Path ''slow.sh'') = Path ''/h/slow.sh''"
    by (simp add: resolve_exec_path_def demo_defs path_defs)
  have h1: "chmod demo_env (resolve_exec_path demo_env demo_world (Path ''slow.sh'')) = None"
    unfolding p by (simp add: demo_defs path_defs)
  have h2: "subprocess_run demo_env
              (str_path (resolve_exec_path demo_env demo_world (Path ''slow.sh''))) 30 = TimeoutExpired"
    unfolding p by (simp add: demo_defs path_defs)
  have s: "str_int 30 = ''30''"
    by (simp add: str_int_def str_nat.simps)
  from execute_bash_script_timeout [OF h1 h2] h1 h2 s show ?thesis
    by simp
qed

text \<open>
  C4. When \<^verbatim>\<open>chmod\<close> raises, or \<^verbatim>\<open>subprocess.run\<close> raises anything but
  \<^verbatim>\<open>TimeoutExpired\<close>, \<open>execute_bash_script\<close> returns (it is a total function into results):
  return code \<open>-1\<close>, no success, an empty standard output, the text of the exception as
  standard error, and execution time 0.
\<close>

theorem execute_bash_script_launch_failure:
  assumes "chmod env (resolve_exec_path env w script_path) = Some e \<or>
           (chmod env (resolve_exec_path env w script_path) = None \<and>
            subprocess_run env (str_path (resolve_exec_path env w script_path)) timeout = RunError e)"
  shows "execute_bash_script env w script_path timeout =
           \<lparr> returncode = -1, stdout = [], stderr = e, execution_time = 0, success = False \<rparr>"
  using assms by (auto simp add: execute_bash_script_def)

text \<open>
  In the installation: a script that cannot be made executable, and a script that is
  not there, so that \<^verbatim>\<open>bash\<close> cannot be run on it.
\<close>

lemma demo_resolve_exec_path:
  "resolve_exec_path demo_env demo_world (Path ''locked.sh'') = Path ''/h/locked.sh''"
  "resolve_exec_path demo_env demo_world (Path ''missing.sh'') = Path ''missing.sh''"
  by (simp_all add: resolve_exec_path_def demo_defs path_defs)

theorem execute_bash_script_launch_failure_witness:
  "execute_bash_script demo_env demo_world (Path ''locked.sh'') 30 =
     \<lparr> returncode = -1, stdout = [], stderr = ''Permission denied'',
       execution_time = 0, success = False \<rparr> \<and>
   execute_bash_script demo_env demo_world (Path ''missing.sh'') 30 =
     \<lparr> returncode = -1, stdout = [], stderr = ''No such file or directory'',
       execution_time = 0, success = False \<rparr>"
proof -
  have h1: "chmod demo_env (resolve_exec_path demo_env demo_world (Path ''locked.sh''))
              = Some ''Permission denied''"
    unfolding demo_resolve_exec_path by (simp add: demo_defs)
  have h2: "chmod demo_env (resolve_exec_path demo_env demo_world (Path ''missing.sh'')) = None \<and>
            subprocess_run demo_env
              (str_path (resolve_exec_path demo_env demo_world (Path ''missing.sh''))) 30
              = RunError ''No such file or directory''"
    unfolding demo_resolve_exec_path by (simp add: demo_defs path_defs)
  from execute_bash_script_launch_failure [OF disjI1, OF h1]
       execute_bash_script_launch_failure [OF disjI2, OF h2]
  show ?thesis
    by simp
qed

subsection \<open>The run logger\<close>

lemma setup_logging_sets_run_dir: "TEST_RUN_DIR (setup_logging env w) \<noteq> None"
  by (simp add: setup_logging_def Let_def now_def mkdir_def write_file_def print_def)

lemma setup_logging_active: "TEST_RUN_DIR w \<noteq> None \<Longrightarrow> setup_logging env w = w"
  by (simp add: setup_logging_def)

lemma setup_logging_sets_result_log:
  "TEST_RUN_DIR w = None \<Longrightarrow> RESULT_LOG_FILE (setup_logging env w) \<noteq> None"
  by (simp add: setup_logging_def Let_def now_def mkdir_def write_file_def print_def)

lemma log_test_result_returns:
  assumes "logger_ready w"
  shows "fst (log_test_result env w test_name script_path result expected_success validation_error) = None"
proof (cases "TEST_RUN_DIR w")
  case None
  obtain d where d: "TEST_RUN_DIR (setup_logging env w) = Some d"
    using setup_logging_sets_run_dir [of env w] by auto
  obtain l where l: "RESULT_LOG_FILE (setup_logging env w) = Some l"
    using setup_logging_sets_result_log [OF None, of env] by auto
  show ?thesis
    by (simp add: log_test_result_def None d l Let_def now_def write_file_def)
next
  case (Some d)
  with assms obtain l where l: "RESULT_LOG_FILE w = Some l"
    by (auto simp: logger_ready_def)
  show ?thesis
    by (simp add: log_test_result_def Some l Let_def now_def write_file_def)
qed

lemma setup_logging_twice: "setup_logging env (setup_logging env w) = setup_logging env w"
  by (rule setup_logging_active) (rule setup_logging_sets_run_dir)

text \<open>
  C6. A second call of \<open>setup_logging\<close> changes nothing, whatever the state. Started
  with no run active, two calls leave the globals set to the run directory named after
  the first clock reading and to its \<^verbatim>\<open>result.log\<close>, add exactly the \<^verbatim>\<open>logs\<close> directory
  and that one run directory, write exactly one file, whose content is the header once,
  and print one line.
\<close>

theorem setup_logging_idempotent:
  "setup_logging env (setup_logging env w) = setup_logging env w \<and>
   (TEST_RUN_DIR w = None \<longrightarrow>
      (let logs_dir = joinpath (file_parent env) (Path ''logs'');
           run_dir = joinpath logs_dir (Path (''test_run_'' @ strftime_compact (clock env (ticks w))));
           twice = setup_logging env (setup_logging env w)
       in run_active twice run_dir \<and>
          dirs twice = insert (abs_path env run_dir) (insert (abs_path env logs_dir) (dirs w)) \<and>
          files twice = (files w)(summary_log_key env run_dir \<mapsto>
             ''Test Run Started: '' @ strftime_iso (clock env (Suc (ticks w))) @ [NL] @
             replicate 50 CHR ''='' @ [NL, NL]) \<and>
          console twice = console w @ [''Test logs will be saved to: '' @ str_path run_dir]))"
  by (simp add: setup_logging_twice)
     (simp add: setup_logging_def Let_def now_def mkdir_def write_file_def print_def
        run_active_def summary_log_key_def)

text \<open>The installation, set up twice.\<close>

theorem setup_logging_idempotent_witness:
  "TEST_RUN_DIR demo_world = None \<and>
   setup_logging demo_env (setup_logging demo_env demo_world) = setup_logging demo_env demo_world \<and>
   run_active (setup_logging demo_env (setup_logging demo_env demo_world))
     (Path ''/h/logs/test_run_20240102_030400'') \<and>
   dirs (setup_logging demo_env (setup_logging demo_env demo_world)) =
     {Path ''/h/logs/test_run_20240102_030400'', Path ''/h/logs'', Path ''/h''} \<and>
   files (setup_logging demo_env (setup_logging demo_env demo_world))
     (Path ''/h/logs/test_run_20240102_030400/result.log'') =
     Some (''Test Run Started: 2024-01-02 03:04:01'' @ [NL] @ replicate 50 CHR ''='' @ [NL, NL])"
proof -
  have fresh: "TEST_RUN_DIR demo_world = None"
    by (simp add: demo_defs)
  have stamp: "strftime_compact (clock demo_env (ticks demo_world)) = ''20240102_030400''"
    by (simp add: strftime_compact_def demo_defs zero_pad_def str_nat.simps)
  have iso: "strftime_iso (clock demo_env (Suc (ticks demo_world))) = ''2024-01-02 03:04:01''"
    by (simp add: strftime_iso_def demo_defs zero_pad_def str_nat.simps)
  have d: "dirs demo_world = {Path ''/h''}" "file_parent demo_env = Path ''/h''"
     "cwd demo_env = Path ''/h''"
    by (simp_all add: demo_defs)
  note both = setup_logging_idempotent [of demo_env demo_world]
  from both have idem:
    "setup_logging demo_env (setup_logging demo_env demo_world) = setup_logging demo_env demo_world"
    by (rule conjunct1)
  from both [THEN conjunct2, THEN mp, OF fresh]
  have "run_active (setup_logging demo_env (setup_logging demo_env demo_world))
          (Path ''/h/logs/test_run_20240102_030400'') \<and>
        dirs (setup_logging demo_env (setup_logging demo_env demo_world)) =
          {Path ''/h/logs/test_run_20240102_030400'', Path ''/h/logs'', Path ''/h''} \<and>
        files (setup_logging demo_env (setup_logging demo_env demo_world))
          (Path ''/h/logs/test_run_20240102_030400/result.log'') =
          Some (''Test Run Started: 2024-01-02 03:04:01'' @ [NL] @ replicate 50 CHR ''='' @ [NL, NL])"
    by (simp add: Let_def stamp iso d path_defs summary_log_key_def)
  with fresh idem show ?thesis
    by (simp only: simp_thms)
qed

text \<open>Names of log files.\<close>

lemma split_char_no_sep: "sep \<notin> set s \<Longrightarrow> split_char sep s = [s]"
  by (induction s) auto

lemma Path_single:
  assumes "CHR ''/'' \<notin> set s" and "s \<noteq> []" and "s \<noteq> ''.''"
  shows "Path s = \<lparr> is_absolute = False, parts = [s] \<rparr>"
proof -
  from assms(1,2) have "\<not> startswith s ''/''"
    by (cases s) auto
  with assms show ?thesis
    by (simp add: Path_def split_char_no_sep)
qed

lemma safe_name_chars:
  "c \<in> set (safe_name n) \<Longrightarrow> isalnum c \<or> c \<in> {CHR '' '', CHR ''-'', CHR ''_''}"
proof -
  assume "c \<in> set (safe_name n)"
  then have "c \<in> set (filter (\<lambda>c. isalnum c \<or> c \<in> {CHR '' '', CHR ''-'', CHR ''_''}) n)"
    unfolding safe_name_def rstrip_def using set_dropWhileD by fastforce
  then show ?thesis
    by simp
qed

lemma test_log_name_no_slash: "CHR ''/'' \<notin> set (test_log_name n)"
proof
  assume "CHR ''/'' \<in> set (test_log_name n)"
  then obtain c where c: "c \<in> set (safe_name n)"
      and eq: "CHR ''/'' = (if c = CHR '' '' then CHR ''_'' else c)"
    by (auto simp: test_log_name_def replace_char_def)
  from eq have "c = CHR ''/''"
    by (simp split: if_splits)
  with safe_name_chars [OF c] show False
    by (simp add: isalnum_def)
qed

lemma test_log_name_proper: "test_log_name n \<noteq> []" "test_log_name n \<noteq> ''.''"
  by (simp_all add: test_log_name_def)

lemma Path_test_log_name:
  "Path (test_log_name n) = \<lparr> is_absolute = False, parts = [test_log_name n] \<rparr>"
  by (rule Path_single) (rule test_log_name_no_slash test_log_name_proper)+

lemma Path_result_log: "Path ''result.log'' = \<lparr> is_absolute = False, parts = [''result.log''] \<rparr>"
  by (simp add: Path_def)

lemma parts_test_log_key:
  "parts (test_log_key env run_dir n) =
     (if is_absolute run_dir then parts run_dir else parts (cwd env) @ parts run_dir) @
     [test_log_name n]"
  by (simp add: test_log_key_def Path_test_log_name abs_path_def joinpath_def)

lemma parts_summary_log_key:
  "parts (summary_log_key env run_dir) =
     (if is_absolute run_dir then parts run_dir else parts (cwd env) @ parts run_dir) @
     [''result.log'']"
  by (simp add: summary_log_key_def Path_result_log abs_path_def joinpath_def)

lemma test_log_key_neq_summary:
  assumes "test_log_name n \<noteq> ''result.log''"
  shows "test_log_key env run_dir n \<noteq> summary_log_key env run_dir"
proof
  assume "test_log_key env run_dir n = summary_log_key env run_dir"
  then have "parts (test_log_key env run_dir n) = parts (summary_log_key env run_dir)"
    by simp
  with assms show False
    by (simp add: parts_test_log_key parts_summary_log_key)
qed

lemma test_log_key_inject:
  assumes "test_log_name a \<noteq> test_log_name b"
  shows "test_log_key env run_dir a \<noteq> test_log_key env run_dir b"
proof
  assume "test_log_key env run_dir a = test_log_key env run_dir b"
  then have "parts (test_log_key env run_dir a) = parts (test_log_key env run_dir b)"
    by simp
  with assms show False
    by (simp add: parts_test_log_key)
qed

text \<open>What one logging operation writes while a run is active.\<close>

lemma log_test_result_active:
  assumes "run_active w run_dir"
  shows "log_test_result env w test_name script_path result expected_success validation_error =
     (None,
      w\<lparr> ticks := Suc (ticks w),
         files := ((files w)
           (test_log_key env run_dir test_name \<mapsto>
              test_log_content test_name script_path (strftime_iso (clock env (ticks w))) result
                expected_success validation_error))
           (summary_log_key env run_dir \<mapsto>
              (case ((files w)
                 (test_log_key env run_dir test_name \<mapsto>
                    test_log_content test_name script_path (strftime_iso (clock env (ticks w)))
                      result expected_success validation_error)) (summary_log_key env run_dir) of
                 None \<Rightarrow> summary_entry test_name script_path (strftime_iso (clock env (ticks w)))
                           result expected_success validation_error
               | Some old \<Rightarrow> old @ summary_entry test_name script_path
                           (strftime_iso (clock env (ticks w))) result expected_success
                           validation_error)) \<rparr>)"
  using assms
  by (simp add: run_active_def log_test_result_def Let_def now_def write_file_def append_file_def
        test_log_key_def summary_log_key_def)


lemma log_test_result_keeps_active:
  assumes "run_active w run_dir"
  shows "run_active (snd (log_test_result env w n p r e v)) run_dir"
  using assms by (simp add: log_test_result_active [OF assms]) (simp add: run_active_def)

lemma log_test_result_own_file:
  assumes "run_active w run_dir" and "test_log_name n \<noteq> ''result.log''"
  shows "files (snd (log_test_result env w n p r e v)) (test_log_key env run_dir n) =
           Some (test_log_content n p (strftime_iso (clock env (ticks w))) r e v)"
  using test_log_key_neq_summary [OF assms(2), of env run_dir]
  by (simp add: log_test_result_active [OF assms(1)])

lemma log_test_result_other_file:
  assumes "run_active w run_dir"
    and "k \<noteq> test_log_key env run_dir n" and "k \<noteq> summary_log_key env run_dir"
  shows "files (snd (log_test_result env w n p r e v)) k = files w k"
  using assms(2,3) by (simp add: log_test_result_active [OF assms(1)])

lemma log_test_result_summary:
  assumes "run_active w run_dir" and "test_log_name n \<noteq> ''result.log''"
  shows "files (snd (log_test_result env w n p r e v)) (summary_log_key env run_dir) =
           Some ((case files w (summary_log_key env run_dir) of None \<Rightarrow> [] | Some old \<Rightarrow> old) @
                 summary_entry n p (strftime_iso (clock env (ticks w))) r e v)"
  using test_log_key_neq_summary [OF assms(2), of env run_dir]
  by (simp add: log_test_result_active [OF assms(1)] split: option.splits)

lemma log_test_result_dirs:
  assumes "run_active w run_dir"
  shows "dirs (snd (log_test_result env w n p r e v)) = dirs w"
  by (simp add: log_test_result_active [OF assms])

lemma finalize_logging_active:
  assumes "run_active w run_dir"
  shows "\<forall>k. k \<noteq> summary_log_key env run_dir \<longrightarrow> files (finalize_logging env w) k = files w k"
    and "\<forall>old. files w (summary_log_key env run_dir) = Some old \<longrightarrow>
            (\<exists>new. files (finalize_logging env w) (summary_log_key env run_dir) = Some (old @ new))"
    and "dirs (finalize_logging env w) = dirs w"
  using assms
  by (auto simp add: run_active_def finalize_logging_def Let_def now_def append_file_def
        summary_log_key_def path_exists_def)

text \<open>
  C7 (as amended). While a run is active, recording a test whose log-file name is not
  \<^verbatim>\<open>result.log\<close> deletes no file and no directory, changes no file but that test's own
  log and the summary log, leaves the log of every test with another log-file name as it
  was, and only appends to the summary log; the run stays active. Finalizing the run
  changes no file but the summary log, to which it only appends.
\<close>

theorem log_test_result_additive:
  assumes "run_active w run_dir"
    and "test_log_name test_name \<noteq> ''result.log''"
    and "w' = snd (log_test_result env w test_name script_path result expected_success
                     validation_error)"
  shows "(\<forall>k. files w k \<noteq> None \<longrightarrow> files w' k \<noteq> None) \<and>
         dirs w' = dirs w \<and>
         (\<forall>k. k \<noteq> test_log_key env run_dir test_name \<and> k \<noteq> summary_log_key env run_dir \<longrightarrow>
              files w' k = files w k) \<and>
         (\<forall>other. test_log_name other \<noteq> test_log_name test_name \<and>
                  test_log_name other \<noteq> ''result.log'' \<longrightarrow>
              files w' (test_log_key env run_dir other) = files w (test_log_key env run_dir other)) \<and>
         (\<forall>old. files w (summary_log_key env run_dir) = Some old \<longrightarrow>
              (\<exists>new. files w' (summary_log_key env run_dir) = Some (old @ new))) \<and>
         run_active w' run_dir \<and>
         (\<forall>k. k \<noteq> summary_log_key env run_dir \<longrightarrow>
              files (finalize_logging env w') k = files w' k) \<and>
         (\<forall>old. files w' (summary_log_key env run_dir) = Some old \<longrightarrow>
              (\<exists>new. files (finalize_logging env w') (summary_log_key env run_dir)
                       = Some (old @ new))) \<and>
         dirs (finalize_logging env w') = dirs w'"
proof (intro conjI)
  have active: "run_active w' run_dir"
    unfolding assms(3) by (rule log_test_result_keeps_active [OF assms(1)])
  show "\<forall>k. k \<noteq> summary_log_key env run_dir \<longrightarrow> files (finalize_logging env w') k = files w' k"
    by (rule finalize_logging_active(1) [OF active])
  show "\<forall>old. files w' (summary_log_key env run_dir) = Some old \<longrightarrow>
          (\<exists>new. files (finalize_logging env w') (summary_log_key env run_dir) = Some (old @ new))"
    by (rule finalize_logging_active(2) [OF active])
  show "dirs (finalize_logging env w') = dirs w'"
    by (rule finalize_logging_active(3) [OF active])
next
  show "\<forall>k. files w k \<noteq> None \<longrightarrow> files w' k \<noteq> None"
  proof (intro allI impI)
    fix k assume "files w k \<noteq> None"
    then show "files w' k \<noteq> None"
      unfolding assms(3)
      by (cases "k = test_log_key env run_dir test_name"; cases "k = summary_log_key env run_dir")
         (simp_all add: log_test_result_own_file [OF assms(1,2)]
            log_test_result_summary [OF assms(1,2)] log_test_result_other_file [OF assms(1)])
  qed
next
  show "dirs w' = dirs w"
    unfolding assms(3) by (rule log_test_result_dirs [OF assms(1)])
next
  show "\<forall>k. k \<noteq> test_log_key env run_dir test_name \<and> k \<noteq> summary_log_key env run_dir \<longrightarrow>
          files w' k = files w k"
    unfolding assms(3) by (simp add: log_test_result_other_file [OF assms(1)])
next
  show "\<forall>other. test_log_name other \<noteq> test_log_name test_name \<and>
                test_log_name other \<noteq> ''result.log'' \<longrightarrow>
          files w' (test_log_key env run_dir other) = files w (test_log_key env run_dir other)"
  proof (intro allI impI)
    fix other
    assume "test_log_name other \<noteq> test_log_name test_name \<and>
            test_log_name other \<noteq> ''result.log''"
    then have "test_log_key env run_dir other \<noteq> test_log_key env run_dir test_name"
      and "test_log_key env run_dir other \<noteq> summary_log_key env run_dir"
      by (simp_all add: test_log_key_inject test_log_key_neq_summary)
    then show "files w' (test_log_key env run_dir other) = files w (test_log_key env run_dir other)"
      unfolding assms(3) by (rule log_test_result_other_file [OF assms(1)])
  qed
next
  show "\<forall>old. files w (summary_log_key env run_dir) = Some old \<longrightarrow>
          (\<exists>new. files w' (summary_log_key env run_dir) = Some (old @ new))"
    unfolding assms(3) by (simp add: log_test_result_summary [OF assms(1,2)])
next
  show "run_active w' run_dir"
    unfolding assms(3) by (rule log_test_result_keeps_active [OF assms(1)])
qed

lemma setup_logging_fresh:
  assumes "TEST_RUN_DIR w = None"
    and "run_dir = joinpath (joinpath (file_parent env) (Path ''logs''))
                     (Path (''test_run_'' @ strftime_compact (clock env (ticks w))))"
  shows "run_active (setup_logging env w) run_dir"
    and "ticks (setup_logging env w) = Suc (Suc (ticks w))"
    and "files (setup_logging env w) = (files w)(summary_log_key env run_dir \<mapsto>
           ''Test Run Started: '' @ strftime_iso (clock env (Suc (ticks w))) @ [NL] @
           replicate 50 CHR ''='' @ [NL, NL])"
  using assms
  by (simp_all add: setup_logging_def Let_def now_def mkdir_def write_file_def print_def
        run_active_def summary_log_key_def)

lemma demo_run_dir:
  "joinpath (joinpath (file_parent demo_env) (Path ''logs''))
     (Path (''test_run_'' @ strftime_compact (clock demo_env (ticks demo_world))))
   = Path ''/h/logs/test_run_20240102_030400''"
proof -
  have "strftime_compact (clock demo_env (ticks demo_world)) = ''20240102_030400''"
    by (simp add: strftime_compact_def demo_defs zero_pad_def str_nat.simps)
  moreover have "file_parent demo_env = Path ''/h''"
    by (simp add: demo_defs)
  ultimately show ?thesis
    by (simp add: path_defs)
qed

lemma demo_started_active: "run_active demo_started (Path ''/h/logs/test_run_20240102_030400'')"
  unfolding demo_started_def pytest_configure_def
  by (rule setup_logging_fresh(1) [OF _ demo_run_dir [symmetric]]) (simp add: demo_defs)

lemma demo_logged_first_active:
  "run_active demo_logged_first (Path ''/h/logs/test_run_20240102_030400'')"
  unfolding demo_logged_first_def
  by (rule log_test_result_keeps_active [OF demo_started_active])

lemma demo_test_log_names:
  "test_log_name ''a b'' = ''a_b.log''"
  "test_log_name ''a_b'' = ''a_b.log''"
  "test_log_name ''c'' = ''c.log''"
  by (simp_all add: test_log_name_def safe_name_def rstrip_def replace_char_def isalnum_def
        isspace_def)

lemma demo_test_log_keys:
  "test_log_key demo_env (Path ''/h/logs/test_run_20240102_030400'') ''a b''
     = Path ''/h/logs/test_run_20240102_030400/a_b.log''"
  "test_log_key demo_env (Path ''/h/logs/test_run_20240102_030400'') ''a_b''
     = Path ''/h/logs/test_run_20240102_030400/a_b.log''"
  "test_log_key demo_env (Path ''/h/logs/test_run_20240102_030400'') ''c''
     = Path ''/h/logs/test_run_20240102_030400/c.log''"
  "summary_log_key demo_env (Path ''/h/logs/test_run_20240102_030400'')
     = Path ''/h/logs/test_run_20240102_030400/result.log''"
  by (simp_all add: test_log_key_def summary_log_key_def demo_test_log_names path_defs)

lemma test_log_content_starts:
  "\<exists>rest. test_log_content n p t r e v = ''Test: '' @ n @ [NL] @ rest"
  by (simp add: test_log_content_def)

text \<open>
  C7 (counterexample). In the run of the installation the tests named \<^verbatim>\<open>a b\<close> and
  \<^verbatim>\<open>a_b\<close> are two recorded test cases; recording the second replaces the log file that
  recording the first wrote.
\<close>

theorem later_test_overwrites_earlier_log:
  "''a b'' \<noteq> ''a_b'' \<and>
   files demo_logged_first (Path ''/h/logs/test_run_20240102_030400/a_b.log'') \<noteq> None \<and>
   files demo_logged_same (Path ''/h/logs/test_run_20240102_030400/a_b.log'') \<noteq>
   files demo_logged_first (Path ''/h/logs/test_run_20240102_030400/a_b.log'')"
proof -
  have first: "files demo_logged_first (Path ''/h/logs/test_run_20240102_030400/a_b.log'') =
      Some (test_log_content ''a b'' (Path ''/h/ok.sh'')
              (strftime_iso (clock demo_env (ticks demo_started))) demo_result True None)"
    using log_test_result_own_file [OF demo_started_active, of "''a b''" demo_env
            "Path ''/h/ok.sh''" demo_result True None]
    by (simp add: demo_test_log_names demo_test_log_keys demo_logged_first_def)
  have same: "files demo_logged_same (Path ''/h/logs/test_run_20240102_030400/a_b.log'') =
      Some (test_log_content ''a_b'' (Path ''/h/ok.sh'')
              (strftime_iso (clock demo_env (ticks demo_logged_first))) demo_result True None)"
    using log_test_result_own_file [OF demo_logged_first_active, of "''a_b''" demo_env
            "Path ''/h/ok.sh''" demo_result True None]
    by (simp add: demo_test_log_names demo_test_log_keys demo_logged_same_def)
  have "test_log_content ''a_b'' p t r e v \<noteq> test_log_content ''a b'' p' t' r' e' v'"
    for p t r e v p' t' r' e' v'
  proof -
    obtain rest where 1: "test_log_content ''a_b'' p t r e v = ''Test: '' @ ''a_b'' @ [NL] @ rest"
      using test_log_content_starts by blast
    obtain rest' where 2:
      "test_log_content ''a b'' p' t' r' e' v' = ''Test: '' @ ''a b'' @ [NL] @ rest'"
      using test_log_content_starts by blast
    show ?thesis
      unfolding 1 2 by simp
  qed
  with first same show ?thesis
    by simp
qed

text \<open>
  The amended C7 in the same run: recording a test named \<^verbatim>\<open>c\<close> keeps the log of
  \<^verbatim>\<open>a b\<close> and extends the summary log.
\<close>

theorem log_test_result_additive_witness:
  "files demo_logged_other (Path ''/h/logs/test_run_20240102_030400/a_b.log'') =
   files demo_logged_first (Path ''/h/logs/test_run_20240102_030400/a_b.log'') \<and>
   files demo_logged_first (Path ''/h/logs/test_run_20240102_030400/a_b.log'') \<noteq> None \<and>
   (\<exists>old new.
      files demo_logged_first (Path ''/h/logs/test_run_20240102_030400/result.log'') = Some old \<and>
      files demo_logged_other (Path ''/h/logs/test_run_20240102_030400/result.log'')
        = Some (old @ new)) \<and>
   run_active demo_logged_other (Path ''/h/logs/test_run_20240102_030400'') \<and>
   files (finalize_logging demo_env demo_logged_other)
     (Path ''/h/logs/test_run_20240102_030400/a_b.log'') =
   files demo_logged_first (Path ''/h/logs/test_run_20240102_030400/a_b.log'')"
proof -
  have name: "test_log_name ''c'' \<noteq> ''result.log''"
    by (simp add: demo_test_log_names)
  note additive = log_test_result_additive [OF demo_logged_first_active name demo_logged_other_def]
  have first: "files demo_logged_first (Path ''/h/logs/test_run_20240102_030400/a_b.log'') \<noteq> None"
    using log_test_result_own_file [OF demo_started_active, of "''a b''" demo_env
            "Path ''/h/ok.sh''" demo_result True None]
    by (simp add: demo_test_log_names demo_test_log_keys demo_logged_first_def)
  obtain old where old:
    "files demo_logged_first (Path ''/h/logs/test_run_20240102_030400/result.log'') = Some old"
    using log_test_result_summary [OF demo_started_active, of "''a b''" demo_env
            "Path ''/h/ok.sh''" demo_result True None]
    by (simp add: demo_test_log_names demo_test_log_keys demo_logged_first_def)
  from additive have "files demo_logged_other
        (test_log_key demo_env (Path ''/h/logs/test_run_20240102_030400'') ''a b'') =
      files demo_logged_first
        (test_log_key demo_env (Path ''/h/logs/test_run_20240102_030400'') ''a b'')"
    by (simp add: demo_test_log_names)
  then have kept: "files demo_logged_other (Path ''/h/logs/test_run_20240102_030400/a_b.log'') =
      files demo_logged_first (Path ''/h/logs/test_run_20240102_030400/a_b.log'')"
    by (simp only: demo_test_log_keys)
  from additive old obtain new where
    "files demo_logged_other (Path ''/h/logs/test_run_20240102_030400/result.log'') = Some (old @ new)"
    by (auto simp only: demo_test_log_keys)
  with old have grown: "\<exists>old new.
      files demo_logged_first (Path ''/h/logs/test_run_20240102_030400/result.log'') = Some old \<and>
      files demo_logged_other (Path ''/h/logs/test_run_20240102_030400/result.log'')
        = Some (old @ new)"
    by blast
  from additive have active: "run_active demo_logged_other (Path ''/h/logs/test_run_20240102_030400'')"
    by simp
  have "Path ''/h/logs/test_run_20240102_030400/a_b.log'' \<noteq>
        summary_log_key demo_env (Path ''/h/logs/test_run_20240102_030400'')"
    unfolding demo_test_log_keys by (simp add: Path_def)
  with additive have "files (finalize_logging demo_env demo_logged_other)
       (Path ''/h/logs/test_run_20240102_030400/a_b.log'') =
     files demo_logged_other (Path ''/h/logs/test_run_20240102_030400/a_b.log'')"
    by blast
  with kept have finalized: "files (finalize_logging demo_env demo_logged_other)
       (Path ''/h/logs/test_run_20240102_030400/a_b.log'') =
     files demo_logged_first (Path ''/h/logs/test_run_20240102_030400/a_b.log'')"
    by simp
  from kept first grown active finalized show ?thesis
    by (intro conjI)
qed

text \<open>Without an active run the logger sets one up first.\<close>

lemma log_test_result_lazy:
  "log_test_result env w n p r e v = log_test_result env (setup_logging env w) n p r e v"
proof (cases "TEST_RUN_DIR w = None")
  case True
  then show ?thesis
    by (simp add: log_test_result_def [of env w] log_test_result_def [of env "setup_logging env w"]
          setup_logging_sets_run_dir)
next
  case False
  then show ?thesis
    by (simp add: setup_logging_active)
qed

subsection \<open>The test-case loader\<close>

lemma normalize_loop_map: "normalize_loop acc tcs = acc @ map normalize_entry tcs"
  by (induction tcs arbitrary: acc) simp_all

lemma load_test_cases_parsed:
  assumes "read_file env w (locate_testcase_file env w) = Inr text"
    and "json_load env text = Some test_cases"
  shows "load_test_cases env w = Inr (map normalize_entry test_cases)"
  using assms by (simp add: load_test_cases_def normalize_loop_map)

text \<open>
  C5. When the configuration file is read and parsed, \<open>load_test_cases\<close> returns one
  descriptor per entry, in the order of the entries: a dictionary as it is, a bare
  string \<open>s\<close> as the descriptor with name \<^verbatim>\<open>"Test " + Path(s).stem\<close>, script path
  \<open>s\<close> and no other key. For the list \<^verbatim>\<open>["foo.sh"]\<close> that is the one descriptor named
  \<^verbatim>\<open>Test foo\<close> with script path \<^verbatim>\<open>foo.sh\<close>, for which \<open>test_bash_script\<close> takes
  \<^verbatim>\<open>expected_success\<close> to be true and \<^verbatim>\<open>timeout\<close> to be 30.
\<close>

theorem load_test_cases_normalizes:
  assumes "read_file env w (locate_testcase_file env w) = Inr text"
    and "json_load env text = Some test_cases"
  shows "\<exists>loaded. load_test_cases env w = Inr loaded \<and>
           length loaded = length test_cases \<and>
           (\<forall>i < length test_cases.
              (\<forall>d. test_cases ! i = Full d \<longrightarrow> loaded ! i = d) \<and>
              (\<forall>s. test_cases ! i = Bare s \<longrightarrow>
                 loaded ! i =
                   \<lparr> tc_name = Some (''Test '' @ path_stem (Path s)), tc_script_path = Some s,
                     tc_expected_success = None, tc_timeout = None,
                     tc_expected_output = None, tc_expected_result_file = None \<rparr>)) \<and>
           (test_cases = [Bare ''foo.sh''] \<longrightarrow>
              loaded =
                [\<lparr> tc_name = Some ''Test foo'', tc_script_path = Some ''foo.sh'',
                   tc_expected_success = None, tc_timeout = None,
                   tc_expected_output = None, tc_expected_result_file = None \<rparr>] \<and>
              get_expected_success (hd loaded) = True \<and>
              get_timeout (hd loaded) = 30)"
proof -
  have stem: "path_stem (Path ''foo.sh'') = ''foo''"
    by (simp add: path_stem_def path_name_def Path_def)
  show ?thesis
    by (simp add: load_test_cases_parsed [OF assms] normalize_entry_def stem get_defs)
qed

text \<open>
  The installation loads \<^verbatim>\<open>["foo.sh"]\<close>; with the other parser it loads a dictionary
  unchanged and names \<^verbatim>\<open>scripts/bar.test.sh\<close> after its stem.
\<close>

lemma demo_testcase_file:
  "locate_testcase_file demo_env demo_world = Path ''Testcase.json''"
  "locate_testcase_file demo_mixed_env demo_world = Path ''Testcase.json''"
  "read_file demo_env demo_world (Path ''Testcase.json'') = Inr demo_config"
  "read_file demo_mixed_env demo_world (Path ''Testcase.json'') = Inr demo_config"
  by (simp_all add: locate_testcase_file_def read_file_def demo_mixed_env_def demo_env_def
        demo_world_def path_defs)

theorem load_test_cases_normalizes_witness:
  "load_test_cases demo_env demo_world =
     Inr [\<lparr> tc_name = Some ''Test foo'', tc_script_path = Some ''foo.sh'',
            tc_expected_success = None, tc_timeout = None,
            tc_expected_output = None, tc_expected_result_file = None \<rparr>] \<and>
   load_test_cases demo_mixed_env demo_world =
     Inr [demo_match_case,
          \<lparr> tc_name = Some ''Test bar.test'', tc_script_path = Some ''scripts/bar.test.sh'',
            tc_expected_success = None, tc_timeout = None,
            tc_expected_output = None, tc_expected_result_file = None \<rparr>]"
proof -
  have a1: "read_file demo_env demo_world (locate_testcase_file demo_env demo_world) = Inr demo_config"
    by (simp add: demo_testcase_file)
  have a2: "json_load demo_env demo_config = Some [Bare ''foo.sh'']"
    by (simp add: demo_env_def)
  have b1: "read_file demo_mixed_env demo_world (locate_testcase_file demo_mixed_env demo_world)
              = Inr demo_config"
    by (simp add: demo_testcase_file)
  have b2: "json_load demo_mixed_env demo_config
              = Some [Full demo_match_case, Bare ''scripts/bar.test.sh'']"
    by (simp add: demo_mixed_env_def)
  have stem: "path_stem (Path ''scripts/bar.test.sh'') = ''bar.test''"
    by (simp add: path_stem_def path_name_def Path_def)
  from load_test_cases_normalizes [OF a1 a2]
  have first: "load_test_cases demo_env demo_world =
     Inr [\<lparr> tc_name = Some ''Test foo'', tc_script_path = Some ''foo.sh'',
            tc_expected_success = None, tc_timeout = None,
            tc_expected_output = None, tc_expected_result_file = None \<rparr>]"
    by auto
  from load_test_cases_normalizes [OF b1 b2]
  obtain loaded where l: "load_test_cases demo_mixed_env demo_world = Inr loaded"
    and len: "length loaded = 2"
    and ith: "\<forall>i<2. (\<forall>d. [Full demo_match_case, Bare ''scripts/bar.test.sh''] ! i = Full d \<longrightarrow>
                        loaded ! i = d) \<and>
                   (\<forall>s. [Full demo_match_case, Bare ''scripts/bar.test.sh''] ! i = Bare s \<longrightarrow>
                        loaded ! i =
                          \<lparr> tc_name = Some (''Test '' @ path_stem (Path s)), tc_script_path = Some s,
                            tc_expected_success = None, tc_timeout = None,
                            tc_expected_output = None, tc_expected_result_file = None \<rparr>)"
    by auto
  from ith have "loaded ! 0 = demo_match_case"
    by simp
  moreover from ith have "loaded ! 1 =
       \<lparr> tc_name = Some ''Test bar.test'', tc_script_path = Some ''scripts/bar.test.sh'',
         tc_expected_success = None, tc_timeout = None,
         tc_expected_output = None, tc_expected_result_file = None \<rparr>"
    using stem by (auto simp: )
  ultimately have "loaded = [demo_match_case,
          \<lparr> tc_name = Some ''Test bar.test'', tc_script_path = Some ''scripts/bar.test.sh'',
            tc_expected_success = None, tc_timeout = None,
            tc_expected_output = None, tc_expected_result_file = None \<rparr>]"
    using len by (intro nth_equalityI) (auto simp: less_Suc_eq numeral_2_eq_2)
  with first l show ?thesis
    by simp
qed

subsection \<open>The test function\<close>

text \<open>What \<open>test_bash_script\<close> does once the script is found.\<close>

lemma test_bash_script_found:
  assumes "tc_script_path test_case = Some sp"
    and "path_exists env w (fst (resolve_script env w sp))"
  shows "test_bash_script env w test_case =
           run_and_validate env w test_case (get_name test_case) (fst (resolve_script env w sp))
             (get_expected_success test_case) (get_timeout test_case)"
  using assms by (cases "resolve_script env w sp") (simp add: test_bash_script_def Let_def)

lemma demo_resolve_script:
  "resolve_script demo_env demo_world ''fail.sh'' = (Path ''/h/fail.sh'', Some (Path ''/h''))"
  "resolve_script demo_env demo_world ''ok.sh'' = (Path ''/h/ok.sh'', Some (Path ''/h''))"
  by (simp_all add: resolve_script_def demo_defs path_defs Let_def)

lemma demo_path_exists:
  "path_exists demo_env demo_world (Path ''/h/fail.sh'')"
  "path_exists demo_env demo_world (Path ''/h/ok.sh'')"
  by (simp_all add: demo_defs path_defs)

lemma demo_execute:
  "execute_bash_script demo_env demo_world (Path ''/h/fail.sh'') t =
     \<lparr> returncode = 1, stdout = ''43'', stderr = ''boom'', execution_time = 1 / 2, success = False \<rparr>"
  "execute_bash_script demo_env demo_world (Path ''/h/ok.sh'') t =
     \<lparr> returncode = 0, stdout = ''42'', stderr = [], execution_time = 1 / 4, success = True \<rparr>"
  by (simp_all add: execute_bash_script_def resolve_exec_path_def demo_defs path_defs)

lemma demo_result_file:
  "resolve_result_file demo_env ''expected.txt'' = Path ''/h/expected.txt''"
  "abs_path demo_env (Path ''/h/expected.txt'') = Path ''/h/expected.txt''"
  "files demo_world (Path ''/h/expected.txt'') = Some [CHR ''4'', CHR ''2'', NL]"
  "Path ''/h/expected.txt'' \<notin> dirs demo_world"
  by (simp_all add: resolve_result_file_def demo_defs path_defs)

lemma demo_strip:
  "strip [CHR ''4'', CHR ''2'', NL] = ''42''" "strip ''42'' = ''42''" "strip ''43'' = ''43''"
  by (simp_all add: strip_def rstrip_def isspace_def NL_def)

lemma demo_logger_ready: "logger_ready demo_world"
  by (simp add: logger_ready_def demo_defs)

lemmas demo_case_defs = demo_match_case_def demo_differ_case_def demo_both_case_def demo_case_def

text \<open>
  C2. When the script is found and its success differs from the expected one,
  \<open>test_bash_script\<close> raises the success-mismatch assertion and nothing else happens,
  whatever the descriptor says about expected output and expected result file: the
  assertion comes before both checks.
\<close>

theorem success_mismatch_reported_first:
  assumes "tc_script_path test_case = Some sp"
    and "path_exists env w (fst (resolve_script env w sp))"
    and "success (execute_bash_script env w (fst (resolve_script env w sp)) (get_timeout test_case))
           \<noteq> get_expected_success test_case"
  shows "test_bash_script env w test_case =
           (Some (AssertionError
                    (success_mismatch_message (get_name test_case) (get_expected_success test_case))),
            w)"
  using assms(3) by (simp add: test_bash_script_found [OF assms(1,2)] run_and_validate_def Let_def)


text \<open>
  A script that exits 1 where success is expected, in a descriptor whose substring check
  would fail as well.
\<close>

theorem success_mismatch_reported_first_witness:
  "check_expected_output demo_mismatch_case
     (execute_bash_script demo_env demo_world (Path ''/h/fail.sh'') 30) None
     = Some (expected_output_message ''Hello'') \<and>
   test_bash_script demo_env demo_world demo_mismatch_case =
     (Some (AssertionError ''Test both failed but was expected to succeed.''), demo_world)"
proof -
  have h1: "tc_script_path demo_mismatch_case = Some ''fail.sh''"
    by (simp add: demo_mismatch_case_def demo_case_def)
  have h2: "path_exists demo_env demo_world (fst (resolve_script demo_env demo_world ''fail.sh''))"
    by (simp add: demo_resolve_script demo_path_exists)
  have h3: "success (execute_bash_script demo_env demo_world
                       (fst (resolve_script demo_env demo_world ''fail.sh''))
                       (get_timeout demo_mismatch_case))
              \<noteq> get_expected_success demo_mismatch_case"
    by (simp add: demo_resolve_script demo_execute get_defs demo_mismatch_case_def demo_case_def)
  have out: "check_expected_output demo_mismatch_case
     (execute_bash_script demo_env demo_world (Path ''/h/fail.sh'') 30) None
     = Some (expected_output_message ''Hello'')"
    by (simp add: check_expected_output_def demo_execute demo_mismatch_case_def demo_case_def)
  from success_mismatch_reported_first [OF h1 h2 h3] out show ?thesis
    by (simp add: success_mismatch_message_def get_defs demo_mismatch_case_def demo_case_def)
qed

text \<open>
  C9 (the code at the failing input). A missing script given by an absolute path: the
  message of the assertion in line 232 reads \<^verbatim>\<open>script_dir\<close>, which is bound only on the
  relative branch, so \<^verbatim>\<open>UnboundLocalError\<close> is raised in place of the assertion. A missing
  script given by a relative path gets the assertion and its message. In both cases
  nothing has been run or written.
\<close>

theorem absolute_script_not_found_raises_unbound_local:
  "test_bash_script demo_env demo_world (demo_case ''t'' ''/nonexistent.sh'') =
     (Some (UnboundLocalError ''script_dir''), demo_world) \<and>
   test_bash_script demo_env demo_world (demo_case ''t'' ''nonexistent.sh'') =
     (Some (AssertionError
        ''Script nonexistent.sh not found for test t. Checked paths: nonexistent.sh, /h/nonexistent.sh''),
      demo_world)"
proof -
  have a: "resolve_script demo_env demo_world ''/nonexistent.sh'' = (Path ''/nonexistent.sh'', None)"
    by (simp add: resolve_script_def demo_defs path_defs Let_def)
  have b: "resolve_script demo_env demo_world ''nonexistent.sh''
             = (Path ''nonexistent.sh'', Some (Path ''/h''))"
    by (simp add: resolve_script_def demo_defs path_defs Let_def)
  have c: "\<not> path_exists demo_env demo_world (Path ''/nonexistent.sh'')"
    "\<not> path_exists demo_env demo_world (Path ''nonexistent.sh'')"
    by (simp_all add: demo_defs path_defs)
  have m: "script_not_found_message ''t'' (Path ''nonexistent.sh'') (Path ''/h'') =
     ''Script nonexistent.sh not found for test t. Checked paths: nonexistent.sh, /h/nonexistent.sh''"
    by (simp add: script_not_found_message_def path_defs)
  show ?thesis
    by (simp add: test_bash_script_def demo_case_def get_defs a b c m)
qed

lemma startswith_append: "startswith (x @ b) x"
  by (induction x) simp_all

lemma str_contains_self: "str_contains (x @ b) x"
proof (cases "x @ b")
  case Nil
  then show ?thesis by simp
next
  case (Cons c cs)
  have "startswith (x @ b) x"
    by (rule startswith_append)
  then have "startswith (c # cs) x"
    by (simp only: Cons)
  then have "str_contains (c # cs) x"
    by simp
  then show ?thesis
    by (simp only: Cons)
qed

lemma str_contains_append: "str_contains (a @ x @ b) x"
  by (induction a) (simp_all add: str_contains_self)

lemma mismatch_message_embeds_expected:
  "str_contains (result_file_mismatch_message file_name expected_content actual_output)
     expected_content"
proof -
  have "result_file_mismatch_message file_name expected_content actual_output =
          (''Expected output from '' @ file_name @ '' does not match actual output.'' @ [NL] @
           ''Expected:'' @ [NL]) @ expected_content @ ([NL] @ ''Actual:'' @ [NL] @ actual_output)"
    by (simp add: result_file_mismatch_message_def)
  then show ?thesis
    by (simp only: str_contains_append)
qed

lemma mismatch_message_embeds_actual:
  "str_contains (result_file_mismatch_message file_name expected_content actual_output)
     actual_output"
proof -
  have "result_file_mismatch_message file_name expected_content actual_output =
          (''Expected output from '' @ file_name @ '' does not match actual output.'' @ [NL] @
           ''Expected:'' @ [NL] @ expected_content @ [NL] @ ''Actual:'' @ [NL]) @ actual_output @ []"
    by (simp add: result_file_mismatch_message_def)
  then show ?thesis
    by (simp only: str_contains_append)
qed

lemma run_and_validate_logged:
  assumes "success (execute_bash_script env w script_path timeout) = expected_success"
    and "check_expected_result_file env w test_case (execute_bash_script env w script_path timeout)
           (check_expected_output test_case (execute_bash_script env w script_path timeout) None)
         = Inr validation_error"
    and "logger_ready w"
  shows "run_and_validate env w test_case name script_path expected_success timeout =
           ((case validation_error of
               None \<Rightarrow> None
             | Some v \<Rightarrow> if v \<noteq> [] then Some (AssertionError v) else None),
            snd (log_test_result env w name script_path
                   (execute_bash_script env w script_path timeout) expected_success validation_error))"
proof -
  obtain w' where "log_test_result env w name script_path
          (execute_bash_script env w script_path timeout) expected_success validation_error = (None, w')"
    using log_test_result_returns [OF assms(3), of env name script_path
            "execute_bash_script env w script_path timeout" expected_success validation_error]
    by (metis prod.collapse)
  with assms(1,2) show ?thesis
    by (simp add: run_and_validate_def Let_def split: option.splits)
qed

text \<open>
  C8. Let the script be found, its success be the expected one, the substring check be
  absent or passed, and \<^verbatim>\<open>expected_result_file\<close> be set to a non-empty name that is not a
  directory. If the file does not exist, its absence is the validation error that is
  logged and raised. If it exists, its stripped content is compared with the stripped
  standard output: when they are equal the test returns and the logged status is
  \<^verbatim>\<open>PASSED\<close>; otherwise the logged status is \<^verbatim>\<open>FAILED\<close> and the message logged and
  raised contains both the expected and the actual text.
\<close>

theorem file_content_check:
  assumes "tc_script_path test_case = Some sp"
    and "path_exists env w (fst (resolve_script env w sp))"
    and "result = execute_bash_script env w (fst (resolve_script env w sp)) (get_timeout test_case)"
    and "success result = get_expected_success test_case"
    and "check_expected_output test_case result None = None"
    and "tc_expected_result_file test_case = Some file_name"
    and "file_name \<noteq> []"
    and "abs_path env (resolve_result_file env file_name) \<notin> dirs w"
    and "logger_ready w"
    and "logged = (\<lambda>validation_error.
           snd (log_test_result env w (get_name test_case) (fst (resolve_script env w sp)) result
                  (get_expected_success test_case) validation_error))"
  shows "case files w (abs_path env (resolve_result_file env file_name)) of
           None \<Rightarrow>
             test_bash_script env w test_case =
               (Some (AssertionError
                        (result_file_missing_message (resolve_result_file env file_name))),
                logged (Some (result_file_missing_message (resolve_result_file env file_name))))
         | Some content \<Rightarrow>
             if strip content = strip (stdout result) then
               test_bash_script env w test_case = (None, logged None) \<and>
               status_of result (get_expected_success test_case) None = ''PASSED''
             else
               test_bash_script env w test_case =
                 (Some (AssertionError
                          (result_file_mismatch_message file_name (strip content)
                             (strip (stdout result)))),
                  logged (Some (result_file_mismatch_message file_name (strip content)
                                  (strip (stdout result))))) \<and>
               status_of result (get_expected_success test_case)
                 (Some (result_file_mismatch_message file_name (strip content)
                          (strip (stdout result)))) = ''FAILED'' \<and>
               str_contains
                 (result_file_mismatch_message file_name (strip content) (strip (stdout result)))
                 (strip content) \<and>
               str_contains
                 (result_file_mismatch_message file_name (strip content) (strip (stdout result)))
                 (strip (stdout result))"
proof (cases "files w (abs_path env (resolve_result_file env file_name))")
  case None
  have "check_expected_result_file env w test_case result (check_expected_output test_case result None)
          = Inr (Some (result_file_missing_message (resolve_result_file env file_name)))"
    using None assms(6,7,8) by (simp add: check_expected_result_file_def path_exists_def Let_def)
  then show ?thesis
    using None assms(3,4,9,10)
    by (simp add: test_bash_script_found [OF assms(1,2)] run_and_validate_logged
          result_file_missing_message_def)
next
  case (Some content)
  have c: "check_expected_result_file env w test_case result (check_expected_output test_case result None)
          = Inr (if strip content = strip (stdout result) then None
                 else Some (result_file_mismatch_message file_name (strip content)
                              (strip (stdout result))))"
    using Some assms(5,6,7)
    by (simp add: check_expected_result_file_def path_exists_def read_file_def Let_def)
  have ne: "result_file_mismatch_message file_name (strip content) (strip (stdout result)) \<noteq> []"
    by (simp add: result_file_mismatch_message_def)
  show ?thesis
  proof (cases "strip content = strip (stdout result)")
    case True
    with c Some assms(3,4,9,10) show ?thesis
      by (simp add: test_bash_script_found [OF assms(1,2)] run_and_validate_logged status_of_def)
  next
    case False
    with c Some ne assms(3,4,9,10) show ?thesis
      by (simp add: test_bash_script_found [OF assms(1,2)] run_and_validate_logged status_of_def
            mismatch_message_embeds_expected mismatch_message_embeds_actual)
  qed
qed

text \<open>
  The file holds \<^verbatim>\<open>42\<close> and a newline: a script that prints \<^verbatim>\<open>42\<close> passes, one that
  prints \<^verbatim>\<open>43\<close> fails with both texts in the message.
\<close>

theorem file_content_check_witness:
  "test_bash_script demo_env demo_world demo_match_case =
     (None, snd (log_test_result demo_env demo_world ''match'' (Path ''/h/ok.sh'')
                   \<lparr> returncode = 0, stdout = ''42'', stderr = [], execution_time = 1 / 4,
                     success = True \<rparr> True None)) \<and>
   test_bash_script demo_env demo_world demo_differ_case =
     (Some (AssertionError
        (''Expected output from expected.txt does not match actual output.'' @ [NL] @
         ''Expected:'' @ [NL] @ ''42'' @ [NL] @ ''Actual:'' @ [NL] @ ''43'')),
      snd (log_test_result demo_env demo_world ''differ'' (Path ''/h/fail.sh'')
             \<lparr> returncode = 1, stdout = ''43'', stderr = ''boom'', execution_time = 1 / 2,
               success = False \<rparr> False
             (Some (''Expected output from expected.txt does not match actual output.'' @ [NL] @
                    ''Expected:'' @ [NL] @ ''42'' @ [NL] @ ''Actual:'' @ [NL] @ ''43''))))"
proof -
  have a1: "tc_script_path demo_match_case = Some ''ok.sh''"
    and b1: "tc_script_path demo_differ_case = Some ''fail.sh''"
    by (simp_all add: demo_case_defs)
  have a2: "path_exists demo_env demo_world (fst (resolve_script demo_env demo_world ''ok.sh''))"
    and b2: "path_exists demo_env demo_world (fst (resolve_script demo_env demo_world ''fail.sh''))"
    by (simp_all add: demo_resolve_script demo_path_exists)
  define r1 where "r1 = execute_bash_script demo_env demo_world
     (fst (resolve_script demo_env demo_world ''ok.sh'')) (get_timeout demo_match_case)"
  define r2 where "r2 = execute_bash_script demo_env demo_world
     (fst (resolve_script demo_env demo_world ''fail.sh'')) (get_timeout demo_differ_case)"
  have r1: "r1 = \<lparr> returncode = 0, stdout = ''42'', stderr = [], execution_time = 1 / 4,
                     success = True \<rparr>"
    and r2: "r2 = \<lparr> returncode = 1, stdout = ''43'', stderr = ''boom'', execution_time = 1 / 2,
               success = False \<rparr>"
    by (simp_all add: r1_def r2_def demo_resolve_script demo_execute)
  have a4: "success r1 = get_expected_success demo_match_case"
    and b4: "success r2 = get_expected_success demo_differ_case"
    by (simp_all add: r1 r2 get_defs demo_case_defs)
  have a5: "check_expected_output demo_match_case r1 None = None"
    and b5: "check_expected_output demo_differ_case r2 None = None"
    by (simp_all add: check_expected_output_def demo_case_defs)
  have a6: "tc_expected_result_file demo_match_case = Some ''expected.txt''"
    and b6: "tc_expected_result_file demo_differ_case = Some ''expected.txt''"
    by (simp_all add: demo_case_defs)
  have h7: "''expected.txt'' \<noteq> []"
    by simp
  have h8: "abs_path demo_env (resolve_result_file demo_env ''expected.txt'') \<notin> dirs demo_world"
    by (simp add: demo_result_file)
  from file_content_check [OF a1 a2 r1_def a4 a5 a6 h7 h8 demo_logger_ready refl]
  have pass: "test_bash_script demo_env demo_world demo_match_case =
     (None, snd (log_test_result demo_env demo_world ''match'' (Path ''/h/ok.sh'')
                   \<lparr> returncode = 0, stdout = ''42'', stderr = [], execution_time = 1 / 4,
                     success = True \<rparr> True None))"
    by (simp add: demo_result_file r1 demo_strip demo_resolve_script get_defs demo_case_defs)
  from file_content_check [OF b1 b2 r2_def b4 b5 b6 h7 h8 demo_logger_ready refl]
  have fail: "test_bash_script demo_env demo_world demo_differ_case =
     (Some (AssertionError
        (''Expected output from expected.txt does not match actual output.'' @ [NL] @
         ''Expected:'' @ [NL] @ ''42'' @ [NL] @ ''Actual:'' @ [NL] @ ''43'')),
      snd (log_test_result demo_env demo_world ''differ'' (Path ''/h/fail.sh'')
             \<lparr> returncode = 1, stdout = ''43'', stderr = ''boom'', execution_time = 1 / 2,
               success = False \<rparr> False
             (Some (''Expected output from expected.txt does not match actual output.'' @ [NL] @
                    ''Expected:'' @ [NL] @ ''42'' @ [NL] @ ''Actual:'' @ [NL] @ ''43''))))"
    by (simp add: demo_result_file r2 demo_strip demo_resolve_script get_defs demo_case_defs
          result_file_mismatch_message_def)
  from pass fail show ?thesis
    by (rule conjI)
qed

text \<open>
  C1 (the code at the failing input). A script that fails although success is expected:
  the assertion in line 239 is raised before \<open>log_test_result\<close> is reached, and the state
  is the one before the test, with no per-test log and no summary log. A test that
  fails in the file-content check is logged before its error is raised.
\<close>

theorem success_mismatch_is_not_logged:
  "test_bash_script demo_env demo_world (demo_case ''t'' ''fail.sh'') =
     (Some (AssertionError ''Test t failed but was expected to succeed.''), demo_world) \<and>
   files demo_world (Path ''/h/logs/test_run_20240102_030400/t.log'') = None \<and>
   files demo_world (Path ''/h/logs/test_run_20240102_030400/result.log'') = None \<and>
   files (snd (test_bash_script demo_env demo_world demo_differ_case))
     (Path ''/h/logs/test_run_20240102_030400/differ.log'') \<noteq> None \<and>
   files (snd (test_bash_script demo_env demo_world demo_differ_case))
     (Path ''/h/logs/test_run_20240102_030400/result.log'') \<noteq> None"
proof -
  have mismatch: "test_bash_script demo_env demo_world (demo_case ''t'' ''fail.sh'') =
     (Some (AssertionError ''Test t failed but was expected to succeed.''), demo_world)"
    by (simp add: test_bash_script_found demo_case_def demo_resolve_script demo_path_exists
          run_and_validate_def demo_execute get_defs success_mismatch_message_def)
  have unlogged: "files demo_world (Path ''/h/logs/test_run_20240102_030400/t.log'') = None"
    "files demo_world (Path ''/h/logs/test_run_20240102_030400/result.log'') = None"
    by (simp_all add: demo_defs path_defs)
  have chk: "check_expected_result_file demo_env demo_world demo_differ_case
          \<lparr> returncode = 1, stdout = ''43'', stderr = ''boom'', execution_time = 1 / 2,
            success = False \<rparr> None =
        Inr (Some (result_file_mismatch_message ''expected.txt'' ''42'' ''43''))"
    by (simp add: check_expected_result_file_def demo_case_defs demo_result_file path_exists_def
          read_file_def demo_strip)
  have name: "test_log_name ''differ'' = ''differ.log''"
    by (simp add: test_log_name_def safe_name_def rstrip_def replace_char_def isalnum_def
          isspace_def)
  have keys: "test_log_key demo_env (Path ''/h/logs/test_run_20240102_030400'') ''differ''
                = Path ''/h/logs/test_run_20240102_030400/differ.log''"
    "summary_log_key demo_env (Path ''/h/logs/test_run_20240102_030400'')
                = Path ''/h/logs/test_run_20240102_030400/result.log''"
    by (simp_all add: test_log_key_def summary_log_key_def name path_defs demo_env_def)
  have run: "snd (test_bash_script demo_env demo_world demo_differ_case) =
     snd (log_test_result demo_env demo_started ''differ'' (Path ''/h/fail.sh'')
            \<lparr> returncode = 1, stdout = ''43'', stderr = ''boom'', execution_time = 1 / 2,
              success = False \<rparr> False
            (Some (result_file_mismatch_message ''expected.txt'' ''42'' ''43'')))"
    using chk
    by (simp add: test_bash_script_found [of _ "''fail.sh''"] demo_case_defs demo_resolve_script
          demo_path_exists demo_execute get_defs check_expected_output_def
          run_and_validate_logged demo_logger_ready
          demo_started_def pytest_configure_def log_test_result_lazy [of demo_env demo_world])
  have logged: "files (snd (test_bash_script demo_env demo_world demo_differ_case))
     (Path ''/h/logs/test_run_20240102_030400/differ.log'') \<noteq> None"
    "files (snd (test_bash_script demo_env demo_world demo_differ_case))
     (Path ''/h/logs/test_run_20240102_030400/result.log'') \<noteq> None"
    using log_test_result_own_file [OF demo_started_active, of "''differ''" demo_env]
      log_test_result_summary [OF demo_started_active, of "''differ''" demo_env]
    by (simp_all add: run name keys)
  from mismatch unlogged logged show ?thesis
    by blast
qed

lemma check_expected_result_file_fails:
  assumes "tc_expected_result_file test_case = Some file_name" and "file_name \<noteq> []"
    and "key = abs_path env (resolve_result_file env file_name)"
    and "(files w key = None \<and> key \<notin> dirs w \<and>
          file_error = result_file_missing_message (resolve_result_file env file_name)) \<or>
         (\<exists>content. files w key = Some content \<and> strip content \<noteq> strip (stdout result) \<and>
            file_error = result_file_mismatch_message file_name (strip content)
                           (strip (stdout result)))"
  shows "check_expected_result_file env w test_case result validation_error = Inr (Some file_error)"
  using assms
  by (auto simp add: check_expected_result_file_def path_exists_def read_file_def Let_def)

text \<open>
  C10. Let the script be found and its success be the expected one. If the expected
  output is set, non-empty and not contained in the standard output, and the expected
  result file is set and is missing or differs, then the substring check records its
  message, but the error raised and logged is the one of the file-content check, which
  is another text, and the whole outcome (exception and state, hence every log file) is
  the outcome of the same descriptor without \<^verbatim>\<open>expected_output\<close>.
\<close>

theorem file_error_replaces_substring_error:
  assumes "tc_script_path test_case = Some sp"
    and "path_exists env w (fst (resolve_script env w sp))"
    and "result = execute_bash_script env w (fst (resolve_script env w sp)) (get_timeout test_case)"
    and "success result = get_expected_success test_case"
    and "tc_expected_output test_case = Some expected"
    and "expected \<noteq> []"
    and "\<not> str_contains (stdout result) expected"
    and "tc_expected_result_file test_case = Some file_name"
    and "file_name \<noteq> []"
    and "key = abs_path env (resolve_result_file env file_name)"
    and "(files w key = None \<and> key \<notin> dirs w \<and>
          file_error = result_file_missing_message (resolve_result_file env file_name)) \<or>
         (\<exists>content. files w key = Some content \<and> strip content \<noteq> strip (stdout result) \<and>
            file_error = result_file_mismatch_message file_name (strip content)
                           (strip (stdout result)))"
    and "logger_ready w"
  shows "check_expected_output test_case result None = Some (expected_output_message expected) \<and>
         test_bash_script env w test_case =
           (Some (AssertionError file_error),
            snd (log_test_result env w (get_name test_case) (fst (resolve_script env w sp)) result
                   (get_expected_success test_case) (Some file_error))) \<and>
         test_bash_script env w test_case =
           test_bash_script env w (test_case\<lparr>tc_expected_output := None\<rparr>) \<and>
         file_error \<noteq> expected_output_message expected"
proof -
  let ?without = "test_case\<lparr>tc_expected_output := None\<rparr>"
  have sub: "check_expected_output test_case result None = Some (expected_output_message expected)"
    using assms(5,6,7) by (simp add: check_expected_output_def)
  have nosub: "check_expected_output ?without result None = None"
    by (simp add: check_expected_output_def)
  have chk: "check_expected_result_file env w test_case result v = Inr (Some file_error)" for v
    by (rule check_expected_result_file_fails [OF assms(8,9,10,11)])
  have chk': "check_expected_result_file env w ?without result v = Inr (Some file_error)" for v
    by (rule check_expected_result_file_fails [OF _ assms(9,10,11)]) (simp add: assms(8))
  have ne: "file_error \<noteq> []"
    using assms(11) by (auto simp: result_file_missing_message_def result_file_mismatch_message_def)
  have same: "get_name ?without = get_name test_case"
    "get_expected_success ?without = get_expected_success test_case"
    "get_timeout ?without = get_timeout test_case"
    by (simp_all add: get_defs)
  have sp': "tc_script_path ?without = Some sp"
    by (simp add: assms(1))
  have run: "test_bash_script env w test_case =
           (Some (AssertionError file_error),
            snd (log_test_result env w (get_name test_case) (fst (resolve_script env w sp)) result
                   (get_expected_success test_case) (Some file_error)))"
    using assms(3,4,12) chk ne
    by (simp add: test_bash_script_found [OF assms(1,2)] run_and_validate_logged)
  have run': "test_bash_script env w ?without =
           (Some (AssertionError file_error),
            snd (log_test_result env w (get_name test_case) (fst (resolve_script env w sp)) result
                   (get_expected_success test_case) (Some file_error)))"
    using assms(3,4,12) chk' ne
    by (simp add: test_bash_script_found [OF sp' assms(2)] run_and_validate_logged same)
  have differ: "file_error \<noteq> expected_output_message expected"
    using assms(11)
    by (auto simp: result_file_missing_message_def result_file_mismatch_message_def
          expected_output_message_def QUOTE_def)
  from sub run run' differ show ?thesis
    by simp
qed

text \<open>
  The script prints \<^verbatim>\<open>43\<close>; the descriptor expects the output \<^verbatim>\<open>Hello\<close> and the content
  of the file, \<^verbatim>\<open>42\<close>.
\<close>

theorem file_error_replaces_substring_error_witness:
  "check_expected_output demo_both_case
     \<lparr> returncode = 1, stdout = ''43'', stderr = ''boom'', execution_time = 1 / 2,
       success = False \<rparr> None = Some (expected_output_message ''Hello'') \<and>
   fst (test_bash_script demo_env demo_world demo_both_case) =
     Some (AssertionError
        (''Expected output from expected.txt does not match actual output.'' @ [NL] @
         ''Expected:'' @ [NL] @ ''42'' @ [NL] @ ''Actual:'' @ [NL] @ ''43'')) \<and>
   test_bash_script demo_env demo_world demo_both_case =
     test_bash_script demo_env demo_world (demo_both_case\<lparr>tc_expected_output := None\<rparr>)"
proof -
  define r where "r = execute_bash_script demo_env demo_world
     (fst (resolve_script demo_env demo_world ''fail.sh'')) (get_timeout demo_both_case)"
  have r: "r = \<lparr> returncode = 1, stdout = ''43'', stderr = ''boom'', execution_time = 1 / 2,
               success = False \<rparr>"
    by (simp add: r_def demo_resolve_script demo_execute)
  have h1: "tc_script_path demo_both_case = Some ''fail.sh''"
    by (simp add: demo_case_defs)
  have h2: "path_exists demo_env demo_world (fst (resolve_script demo_env demo_world ''fail.sh''))"
    by (simp add: demo_resolve_script demo_path_exists)
  have h4: "success r = get_expected_success demo_both_case"
    by (simp add: r get_defs demo_case_defs)
  have h5: "tc_expected_output demo_both_case = Some ''Hello''"
    by (simp add: demo_case_defs)
  have h6: "''Hello'' \<noteq> []"
    by simp
  have h7: "\<not> str_contains (stdout r) ''Hello''"
    by (simp add: r)
  have h8: "tc_expected_result_file demo_both_case = Some ''expected.txt''"
    by (simp add: demo_case_defs)
  have h9: "''expected.txt'' \<noteq> []"
    by simp
  have h11: "(files demo_world (Path ''/h/expected.txt'') = None \<and>
          Path ''/h/expected.txt'' \<notin> dirs demo_world \<and>
          result_file_mismatch_message ''expected.txt'' ''42'' ''43'' =
            result_file_missing_message (resolve_result_file demo_env ''expected.txt'')) \<or>
         (\<exists>content. files demo_world (Path ''/h/expected.txt'') = Some content \<and>
            strip content \<noteq> strip (stdout r) \<and>
            result_file_mismatch_message ''expected.txt'' ''42'' ''43'' =
              result_file_mismatch_message ''expected.txt'' (strip content) (strip (stdout r)))"
    by (rule disjI2) (simp add: demo_result_file demo_strip r)
  have key: "Path ''/h/expected.txt'' = abs_path demo_env (resolve_result_file demo_env ''expected.txt'')"
    by (simp add: demo_result_file)
  note inst = file_error_replaces_substring_error
                [OF h1 h2 r_def h4 h5 h6 h7 h8 h9 key h11 demo_logger_ready]
  from inst have "check_expected_output demo_both_case r None = Some (expected_output_message ''Hello'')"
    by (rule conjunct1)
  moreover from inst [THEN conjunct2, THEN conjunct1]
  have "fst (test_bash_script demo_env demo_world demo_both_case) =
      Some (AssertionError (result_file_mismatch_message ''expected.txt'' ''42'' ''43''))"
    by simp
  moreover note inst [THEN conjunct2, THEN conjunct2, THEN conjunct1]
  ultimately show ?thesis
    by (simp add: r result_file_mismatch_message_def)
qed

end
